theory Spec2Isabelle
  imports Main "HOL-Library.Sublist"
begin

section \<open>JavaScript values used by the image manager\<close>

text \<open>
  Strings are byte lists. \<open>js_split\<close> is \<open>String.prototype.split\<close> with a
  one-character separator, \<open>js_join\<close> is \<open>Array.prototype.join\<close>,
  \<open>toLowerCase\<close> lowers the ASCII letters.
\<close>

fun js_split :: "char \<Rightarrow> string \<Rightarrow> string list" where
  "js_split c [] = [[]]"
| "js_split c (x # xs) =
     (if x = c then [] # js_split c xs
      else (case js_split c xs of [] \<Rightarrow> [[x]] | y # ys \<Rightarrow> (x # y) # ys))"

fun js_join :: "string \<Rightarrow> string list \<Rightarrow> string" where
  "js_join sep [] = []"
| "js_join sep [x] = x"
| "js_join sep (x # y # ys) = x @ sep @ js_join sep (y # ys)"

definition lower_char :: "char \<Rightarrow> char" where
  "lower_char c =
     (case map_of (zip ''ABCDEFGHIJKLMNOPQRSTUVWXYZ'' ''abcdefghijklmnopqrstuvwxyz'') c of
        Some l \<Rightarrow> l
      | None \<Rightarrow> c)"

definition toLowerCase :: "string \<Rightarrow> string" where
  "toLowerCase s = map lower_char s"

text \<open>A non-negative integer in a template literal: its decimal digits.\<close>

fun show_nat :: "nat \<Rightarrow> string" where
  "show_nat n =
     (if n < 10 then [''0123456789'' ! n]
      else show_nat (n div 10) @ [''0123456789'' ! (n mod 10)])"

declare show_nat.simps [simp del]

text \<open>Array destructuring \<open>const [, , x] = xs\<close>: the element, or undefined.\<close>

definition nth_opt :: "'a list \<Rightarrow> nat \<Rightarrow> 'a option" where
  "nth_opt xs i = (if i < length xs then Some (xs ! i) else None)"

text \<open>
  JavaScript numbers stay abstract (type \<open>'n\<close>): the conversions the code calls on
  them are the fields of \<open>number_ops\<close>, supplied by the runtime.
\<close>

record 'n number_ops =
  js_Number :: "string \<Rightarrow> 'n"
  js_toFixed :: "'n \<Rightarrow> string"
  js_toFixed2 :: "'n \<Rightarrow> string"
  js_toString :: "'n \<Rightarrow> string"

text \<open>
  A JavaScript object \<open>Record<string, string | undefined>\<close> is the list of its
  entries in enumeration order; a value \<open>None\<close> is \<open>undefined\<close>. Assigning a key
  that exists keeps its position, a new key goes last (keys are not array indices).
\<close>

type_synonym ini = "(string \<times> string option) list"

fun obj_set :: "string \<Rightarrow> string option \<Rightarrow> ini \<Rightarrow> ini" where
  "obj_set k v [] = [(k, v)]"
| "obj_set k v ((k', v') # r) = (if k = k' then (k, v) # r else (k', v') # obj_set k v r)"

definition spread :: "ini \<Rightarrow> ini \<Rightarrow> ini" where
  "spread obj src = foldl (\<lambda>acc kv. obj_set (fst kv) (snd kv) acc) obj src"

definition obj_get :: "ini \<Rightarrow> string \<Rightarrow> string option option" where
  "obj_get obj k = map_of obj k"

section \<open>Paths and manager options\<close>

text \<open>
  A path is the list of its segments below the root. \<open>path.resolve(base, seg)\<close> and
  \<open>path.join(base, seg)\<close> append one segment to a normalised base; an empty segment
  adds nothing. (A segment is taken as a plain name: no separator inside, not \<open>.\<close> or
  \<open>..\<close>.)
\<close>

type_synonym path = "string list"

definition path_resolve :: "path \<Rightarrow> string \<Rightarrow> path" where
  "path_resolve base seg = (if seg = [] then base else base @ [seg])"

definition path_join :: "path \<Rightarrow> string \<Rightarrow> path" where
  "path_join base seg = (if seg = [] then base else base @ [seg])"

definition path_str :: "path \<Rightarrow> string" where
  "path_str p = concat (map (\<lambda>s. CHR ''/'' # s) p)"

record manager_options =
  imageBasePath :: path
  deployedPath :: path
  cachePath :: path
  configPath :: string
  logPath :: string
  path_sep :: char

section \<open>Images\<close>

record image =
  response_path :: string
  response_version :: string
  response_apiVersion :: string
  response_releaseType :: string
  resolvedFsPath :: path
  isLocal :: bool
  manager :: manager_options

definition getPath :: "image \<Rightarrow> string" where
  "getPath img = response_path img"

definition getVersion :: "image \<Rightarrow> string" where
  "getVersion img = response_version img"

definition getApiVersion :: "image \<Rightarrow> string" where
  "getApiVersion img = response_apiVersion img"

definition getReleaseType :: "image \<Rightarrow> string" where
  "getReleaseType img = response_releaseType img"

definition getFsPath :: "image \<Rightarrow> path" where
  "getFsPath img = resolvedFsPath img"

definition getArch :: "image \<Rightarrow> string option" where
  "getArch img =
     (case nth_opt (js_split CHR '','' (getPath img)) 2 of
        None \<Rightarrow> None
      | Some deviceTypeWithArch \<Rightarrow>
          (case js_split CHR ''_'' deviceTypeWithArch of
             [] \<Rightarrow> None
           | s # ss \<Rightarrow> Some (last (s # ss))))"

definition getTargetOS :: "image \<Rightarrow> string" where
  "getTargetOS img =
     (case nth_opt (js_split CHR '','' (getPath img)) 1 of
        None \<Rightarrow> []
      | Some systemNameWithVersion \<Rightarrow>
          (case nth_opt (js_split CHR ''-'' systemNameWithVersion) 0 of
             None \<Rightarrow> []
           | Some systemName \<Rightarrow> systemName))"

definition getTargetVersion :: "image \<Rightarrow> string" where
  "getTargetVersion img =
     (case nth_opt (js_split CHR '','' (getPath img)) 1 of
        None \<Rightarrow> []
      | Some systemNameWithVersion \<Rightarrow>
          (case nth_opt (js_split CHR ''-'' systemNameWithVersion) 1 of
             None \<Rightarrow> []
           | Some version \<Rightarrow> version))"

definition getDeviceType :: "image \<Rightarrow> string" where
  "getDeviceType img =
     (case nth_opt (js_split CHR '','' (getPath img)) 2 of
        None \<Rightarrow> []
      | Some deviceTypeWithArch \<Rightarrow>
          (case nth_opt (js_split CHR ''_'' deviceTypeWithArch) 0 of
             None \<Rightarrow> []
           | Some deviceType \<Rightarrow> deviceType))"

definition getSnakecaseDeviceType :: "image \<Rightarrow> string" where
  "getSnakecaseDeviceType img =
     (let deviceType = getDeviceType img
      in if deviceType = ''pc'' then ''2in1_foldable'' else toLowerCase deviceType)"

section \<open>Screens and product presets\<close>

record 'n screen_options =
  diagonal :: 'n
  density :: 'n
  height :: 'n
  width :: 'n

record product_config_item =
  pc_name :: string
  pc_devModel :: "string option"
  screenWidth :: string
  screenHeight :: string
  screenDiagonal :: string
  screenDensity :: string
  outerScreenWidth :: "string option"
  outerScreenHeight :: "string option"
  outerScreenDiagonal :: "string option"

datatype 'n screen_like =
  Screen "'n screen_options"
| ProductPreset product_config_item string

definition toScreen :: "'n number_ops \<Rightarrow> product_config_item \<Rightarrow> 'n screen_options" where
  "toScreen ops productConfig =
     \<lparr> diagonal = js_Number ops (screenDiagonal productConfig),
       density = js_Number ops (screenDensity productConfig),
       height = js_Number ops (screenHeight productConfig),
       width = js_Number ops (screenWidth productConfig) \<rparr>"

text \<open>Truthiness of an optional string: defined and not empty.\<close>

definition truthy :: "string option \<Rightarrow> bool" where
  "truthy v = (case v of None \<Rightarrow> False | Some s \<Rightarrow> s \<noteq> [])"

section \<open>Devices\<close>

record 'n device_options =
  opt_name :: string
  cpuNumber :: 'n
  diskSize :: 'n
  memorySize :: 'n
  screen :: "'n screen_like"

record FullDeployedImageOptions =
  l_name :: string
  l_apiVersion :: string
  l_cpuNumber :: string
  l_diagonalSize :: string
  l_resolutionHeight :: string
  l_resolutionWidth :: string
  l_density :: string
  l_memoryRamSize :: string
  l_dataDiskSize :: string
  l_path :: path
  l_type :: string
  l_uuid :: string
  l_version :: string
  l_imageDir :: string
  l_showVersion :: string
  l_sdk_path :: path
  l_config_path :: string
  l_log_path :: string
  l_apiName :: string
  l_abi :: "string option"
  l_harmonyOSVersion :: string
  l_guestVersion :: string
  l_devModel :: "string option"
  l_model :: "string option"

record ini_options =
  vendorCountry :: "string option"
  isPublic :: "bool option"
  overrides :: ini

definition default_ini_options :: ini_options where
  "default_ini_options = \<lparr> vendorCountry = None, isPublic = None, overrides = [] \<rparr>"

record 'n device =
  image :: image
  options :: "'n device_options"
  uuid :: string
  cachedList :: "FullDeployedImageOptions option"
  cachedIni :: "ini option"

text \<open>
  The constructor draws the uuid from \<open>crypto.randomUUID()\<close>; the drawn value is
  the third argument.
\<close>

definition createDevice :: "image \<Rightarrow> 'n device_options \<Rightarrow> string \<Rightarrow> 'n device" where
  "createDevice img opts randomUUID =
     \<lparr> image = img, options = opts, uuid = randomUUID, cachedList = None, cachedIni = None \<rparr>"

definition setUuid :: "string \<Rightarrow> 'n device \<Rightarrow> 'n device" where
  "setUuid u dev = dev\<lparr>uuid := u\<rparr>"

definition setCachedList :: "FullDeployedImageOptions \<Rightarrow> 'n device \<Rightarrow> 'n device" where
  "setCachedList l dev = dev\<lparr>cachedList := Some l\<rparr>"

definition setCachedIni :: "ini \<Rightarrow> 'n device \<Rightarrow> 'n device" where
  "setCachedIni i dev = dev\<lparr>cachedIni := Some i\<rparr>"

definition getScreen :: "'n number_ops \<Rightarrow> 'n device \<Rightarrow> 'n screen_options" where
  "getScreen ops dev =
     (case screen (options dev) of
        ProductPreset productConfig deviceType \<Rightarrow> toScreen ops productConfig
      | Screen s \<Rightarrow> s)"

definition buildList :: "'n number_ops \<Rightarrow> 'n device \<Rightarrow> FullDeployedImageOptions" where
  "buildList ops dev =
     (case cachedList dev of
        Some cached \<Rightarrow> cached
      | None \<Rightarrow>
          (let mo = manager (image dev);
               img = image dev;
               scr = getScreen ops dev;
               list = \<lparr>
                 l_name = opt_name (options dev),
                 l_apiVersion = getApiVersion img,
                 l_cpuNumber = js_toFixed ops (cpuNumber (options dev)),
                 l_diagonalSize = js_toFixed2 ops (diagonal scr),
                 l_resolutionHeight = js_toFixed ops (height scr),
                 l_resolutionWidth = js_toFixed ops (width scr),
                 l_density = js_toFixed ops (density scr),
                 l_memoryRamSize = js_toFixed ops (memorySize (options dev)),
                 l_dataDiskSize = js_toFixed ops (diskSize (options dev)),
                 l_path = path_resolve (deployedPath mo) (opt_name (options dev)),
                 l_type = getSnakecaseDeviceType img,
                 l_uuid = uuid dev,
                 l_version = getVersion img,
                 l_imageDir = js_join [path_sep mo] (js_split CHR '','' (getPath img)) @ [path_sep mo],
                 l_showVersion =
                   getTargetOS img @ '' '' @ getTargetVersion img @ ''('' @ getApiVersion img @ '')'',
                 l_sdk_path = imageBasePath mo,
                 l_config_path = configPath mo,
                 l_log_path = logPath mo,
                 l_apiName = getTargetVersion img,
                 l_abi = getArch img,
                 l_harmonyOSVersion = getTargetOS img @ ''-'' @ getTargetVersion img,
                 l_guestVersion =
                   getTargetOS img @ '' '' @ getVersion img @ ''('' @ getReleaseType img @ '')'',
                 l_devModel = None,
                 l_model = None \<rparr>
           in (case screen (options dev) of
                 ProductPreset productConfig deviceType \<Rightarrow>
                   list\<lparr> l_devModel :=
                            (if truthy (pc_devModel productConfig) then pc_devModel productConfig
                             else None),
                         l_model :=
                            (if pc_name productConfig \<noteq> [] then Some (pc_name productConfig)
                             else None) \<rparr>
               | Screen s \<Rightarrow> list)))"

text \<open>
  \<open>buildIni\<close>: the cached mapping if there is one; otherwise the object literal
  with the overrides spread last (\<open>ini_literal\<close>, \<open>spread\<close>), then the dual-screen
  fields (\<open>ini_double\<close>), then the legacy physical-size fields (\<open>ini_phy\<close>).
\<close>

definition productPreset :: "'n device \<Rightarrow> product_config_item option" where
  "productPreset dev =
     (case screen (options dev) of
        ProductPreset productConfig deviceType \<Rightarrow> Some productConfig
      | Screen s \<Rightarrow> None)"

definition hasOuterScreen :: "'n number_ops \<Rightarrow> 'n device \<Rightarrow> bool" where
  "hasOuterScreen ops dev =
     (l_type (buildList ops dev) = ''2in1_foldable'' \<and>
      Option.bind (productPreset dev) outerScreenWidth \<noteq> None \<and>
      Option.bind (productPreset dev) outerScreenHeight \<noteq> None \<and>
      Option.bind (productPreset dev) outerScreenDiagonal \<noteq> None)"

definition useDualScreen :: "'n number_ops \<Rightarrow> 'n device \<Rightarrow> bool" where
  "useDualScreen ops dev = hasOuterScreen ops dev"

definition ini_literal :: "'n number_ops \<Rightarrow> 'n device \<Rightarrow> ini_options \<Rightarrow> ini" where
  "ini_literal ops dev opts =
     (let listConfig = buildList ops dev;
          scr = getScreen ops dev;
          img = image dev;
          singleDiagonal =
            (if useDualScreen ops dev then Option.bind (productPreset dev) outerScreenDiagonal
             else Some (js_toString ops (diagonal scr)));
          singleHeight =
            (if useDualScreen ops dev then Option.bind (productPreset dev) outerScreenHeight
             else Some (js_toString ops (height scr)));
          singleWidth =
            (if useDualScreen ops dev then Option.bind (productPreset dev) outerScreenWidth
             else Some (js_toString ops (width scr)))
      in [ (''name'', Some (l_name listConfig)),
           (''deviceType'', Some (l_type listConfig)),
           (''deviceModel'', l_devModel listConfig),
           (''productModel'', l_model listConfig),
           (''vendorCountry'', Some (case vendorCountry opts of None \<Rightarrow> ''CN'' | Some c \<Rightarrow> c)),
           (''uuid'', Some (uuid dev)),
           (''configPath'', Some (l_config_path listConfig)),
           (''logPath'', Some (l_log_path listConfig)),
           (''sdkPath'', Some (path_str (l_sdk_path listConfig))),
           (''imageSubPath'', Some (l_imageDir listConfig)),
           (''instancePath'', Some (path_str (l_path listConfig))),
           (''os.osVersion'',
              Some (getTargetOS img @ '' '' @ getTargetVersion img @ ''('' @
                    getApiVersion img @ '')'')),
           (''os.apiVersion'', Some (getApiVersion img)),
           (''os.softwareVersion'', Some (getVersion img)),
           (''os.isPublic'',
              Some (if (case isPublic opts of None \<Rightarrow> True | Some b \<Rightarrow> b)
                    then ''true'' else ''false'')),
           (''hw.cpu.arch'', l_abi listConfig),
           (''hw.cpu.ncore'', Some (l_cpuNumber listConfig)),
           (''hw.lcd.density'', Some (js_toFixed ops (density scr))),
           (''hw.lcd.single.diagonalSize'', singleDiagonal),
           (''hw.lcd.single.height'', singleHeight),
           (''hw.lcd.single.width'', singleWidth),
           (''hw.lcd.number'', Some (if useDualScreen ops dev then ''2'' else ''1'')),
           (''hw.ramSize'', Some (l_memoryRamSize listConfig)),
           (''hw.dataPartitionSize'', Some (l_dataDiskSize listConfig)),
           (''isCustomize'', Some (if productPreset dev \<noteq> None then ''false'' else ''true'')),
           (''hw.hdc.port'', Some ''notset'') ])"

definition ini_double :: "'n number_ops \<Rightarrow> 'n device \<Rightarrow> ini \<Rightarrow> ini" where
  "ini_double ops dev ini =
     (let doubleDiagonal =
            (if useDualScreen ops dev then map_option screenDiagonal (productPreset dev)
             else None);
          doubleHeight =
            (if useDualScreen ops dev then map_option screenHeight (productPreset dev)
             else None);
          doubleWidth =
            (if useDualScreen ops dev then map_option screenWidth (productPreset dev)
             else None)
      in if useDualScreen ops dev \<and> doubleDiagonal \<noteq> None \<and> doubleHeight \<noteq> None \<and>
            doubleWidth \<noteq> None
         then obj_set ''hw.lcd.double.width'' doubleWidth
                (obj_set ''hw.lcd.double.height'' doubleHeight
                  (obj_set ''hw.lcd.double.diagonalSize'' doubleDiagonal ini))
         else ini)"

definition ini_phy :: "'n number_ops \<Rightarrow> 'n device \<Rightarrow> ini \<Rightarrow> ini" where
  "ini_phy ops dev ini =
     (case productPreset dev of
        Some productConfig \<Rightarrow>
          (if \<not> useDualScreen ops dev then
             (let ini' = (if truthy (outerScreenHeight productConfig)
                          then obj_set ''hw.phy.height'' (outerScreenHeight productConfig) ini
                          else ini)
              in if truthy (outerScreenWidth productConfig)
                 then obj_set ''hw.phy.width'' (outerScreenWidth productConfig) ini'
                 else ini')
           else ini)
      | None \<Rightarrow> ini)"

definition buildIni :: "'n number_ops \<Rightarrow> 'n device \<Rightarrow> ini_options \<Rightarrow> ini" where
  "buildIni ops dev opts =
     (case cachedIni dev of
        Some cached \<Rightarrow> cached
      | None \<Rightarrow>
          ini_phy ops dev
            (ini_double ops dev (spread (ini_literal ops dev opts) (overrides opts))))"

text \<open>
  \<open>toIniString\<close>: the entries of \<open>buildIni()\<close> whose value is defined, as
  \<open>key=value\<close>, joined by a newline, plus a final newline.
\<close>

definition defined_entries :: "ini \<Rightarrow> (string \<times> string) list" where
  "defined_entries m = concat (map (\<lambda>kv. case snd kv of None \<Rightarrow> [] | Some v \<Rightarrow> [(fst kv, v)]) m)"

definition ini_line :: "string \<times> string \<Rightarrow> string" where
  "ini_line kv = fst kv @ ''='' @ snd kv"

definition newline :: char where
  "newline = CHR 0x0A"

definition toIniString :: "'n number_ops \<Rightarrow> 'n device \<Rightarrow> string" where
  "toIniString ops dev =
     js_join [newline] (map ini_line (defined_entries (buildIni ops dev default_ini_options)))
       @ [newline]"


section \<open>The file system\<close>

text \<open>
  A file system maps a path to a directory or a file. The registry code reads files as
  JSON documents: a file holds either a document (\<open>Json j\<close> stands for every text
  that \<open>JSON.parse\<close> reads as \<open>j\<close>, and for \<open>JSON.stringify(j, null, 2)\<close>) or a
  text that \<open>JSON.parse\<close> rejects. A document is \<open>null\<close>, an array of deployment
  records, or any other value (\<open>JOther\<close>: an object, a number, a string, a boolean).
  The downloader reads and writes files as byte strings. A failed call keeps the file
  system it had reached.
\<close>

datatype json = JNull | JArray "FullDeployedImageOptions list" | JOther

datatype content = Json json | Text string

datatype 'c node = Dir | File 'c

type_synonym 'c file_system = "path \<Rightarrow> 'c node option"

type_synonym fs = "content file_system"

datatype deploy_code =
  DEVICE_ALREADY_DEPLOYED
| LIST_JSON_NOT_AN_ARRAY
| CATCHED_ERROR
| MAYBE_OPENED_DEVICE_MANAGER_IN_DEVECO_STUDIO
| SYMLINK_SDK_PATH_EXISTS

datatype error =
  DeployError deploy_code
| PlainError string
| TypeError
| SyntaxError
| FsError
| AxiosError nat
| NetworkError
| StreamError

definition existsSync :: "'c file_system \<Rightarrow> path \<Rightarrow> bool" where
  "existsSync fs p = (fs p \<noteq> None)"

definition isFile :: "'c file_system \<Rightarrow> path \<Rightarrow> bool" where
  "isFile fs p = (case fs p of Some (File c) \<Rightarrow> True | _ \<Rightarrow> False)"

definition isDirectory :: "'c file_system \<Rightarrow> path \<Rightarrow> bool" where
  "isDirectory fs p = (case fs p of Some Dir \<Rightarrow> True | _ \<Rightarrow> False)"

text \<open>\<open>mkdirSync(p, {recursive: true})\<close>: fails when \<open>p\<close> or an ancestor is a file.\<close>

definition mkdirSync :: "'c file_system \<Rightarrow> path \<Rightarrow> error + 'c file_system" where
  "mkdirSync fs p =
     (if list_ex (isFile fs) (prefixes p) then Inl FsError
      else Inr (\<lambda>q. if prefix q p \<and> fs q = None then Some Dir else fs q))"

text \<open>\<open>writeFileSync\<close>: the parent must be a directory and the path must not be one.\<close>

definition writeFileSync :: "'c file_system \<Rightarrow> path \<Rightarrow> 'c \<Rightarrow> error + 'c file_system" where
  "writeFileSync fs p c =
     (if p = [] then Inl FsError
      else (case fs (butlast p) of
              Some Dir \<Rightarrow> (case fs p of Some Dir \<Rightarrow> Inl FsError | _ \<Rightarrow> Inr (fs(p \<mapsto> File c)))
            | _ \<Rightarrow> Inl FsError))"

definition readFileSync :: "'c file_system \<Rightarrow> path \<Rightarrow> error + 'c" where
  "readFileSync fs p = (case fs p of Some (File c) \<Rightarrow> Inr c | _ \<Rightarrow> Inl FsError)"

text \<open>\<open>rmSync(p, {recursive: true})\<close>: fails when nothing is there.\<close>

definition rmSync :: "'c file_system \<Rightarrow> path \<Rightarrow> error + 'c file_system" where
  "rmSync fs p =
     (if fs p = None then Inl FsError
      else Inr (\<lambda>q. if prefix p q then None else fs q))"

definition JSON_parse :: "content \<Rightarrow> error + json" where
  "JSON_parse c = (case c of Json j \<Rightarrow> Inr j | Text s \<Rightarrow> Inl SyntaxError)"

text \<open>\<open>JSON.parse(...) ?? []\<close>\<close>

definition or_empty_array :: "json \<Rightarrow> json" where
  "or_empty_array j = (case j of JNull \<Rightarrow> JArray [] | _ \<Rightarrow> j)"

fun findIndex :: "('a \<Rightarrow> bool) \<Rightarrow> 'a list \<Rightarrow> nat option" where
  "findIndex P [] = None"
| "findIndex P (x # xs) = (if P x then Some 0 else map_option Suc (findIndex P xs))"

section \<open>The registry: isDeployed, deploy, delete, getDevices\<close>

text \<open>\<open>JSON.parse(fs.readFileSync(p, 'utf-8'))\<close>\<close>

definition read_json :: "fs \<Rightarrow> path \<Rightarrow> error + json" where
  "read_json fs p = (case readFileSync fs p of Inl e \<Rightarrow> Inl e | Inr c \<Rightarrow> JSON_parse c)"

definition isDeployed :: "fs \<Rightarrow> 'n device \<Rightarrow> error + bool" where
  "isDeployed fs dev =
     (let listsPath = path_join (deployedPath (manager (image dev))) ''lists.json''
      in if \<not> existsSync fs listsPath \<or> \<not> isFile fs listsPath then Inr False
         else (case read_json fs listsPath of
                 Inl e \<Rightarrow> Inl e
               | Inr j \<Rightarrow>
                   (case or_empty_array j of
                      JArray entries \<Rightarrow>
                        Inr (list_ex
                               (\<lambda>item. l_name item = opt_name (options dev) \<and>
                                  existsSync fs (path_resolve (l_path item) ''config.ini''))
                               entries)
                    | _ \<Rightarrow> Inl TypeError)))"

text \<open>
  \<open>deploy\<close> in three parts: the guard and the deployment directory (\<open>deploy\<close>),
  the checks on the target directory and the registry file (\<open>deploy_lists\<close>), and the
  writes once the registry is an array (\<open>deploy_append\<close>).
\<close>

definition deploy_append ::
  "'n number_ops \<Rightarrow> fs \<Rightarrow> 'n device \<Rightarrow> FullDeployedImageOptions list \<Rightarrow> error option \<times> fs" where
  "deploy_append ops fs1 dev entries =
     (let listsPath = path_join (deployedPath (manager (image dev))) ''lists.json'';
          listConfig = buildList ops dev
      in if find (\<lambda>item. l_name item = l_name listConfig) entries \<noteq> None
         then (Some (DeployError DEVICE_ALREADY_DEPLOYED), fs1)
         else (case writeFileSync fs1 listsPath (Json (JArray (entries @ [listConfig]))) of
                 Inl e \<Rightarrow> (Some e, fs1)
               | Inr fs2 \<Rightarrow>
                   (case mkdirSync fs2 (l_path listConfig) of
                      Inl e \<Rightarrow> (Some e, fs2)
                    | Inr fs3 \<Rightarrow>
                        (case writeFileSync fs3 (path_join (l_path listConfig) ''config.ini'')
                                (Text (toIniString ops dev)) of
                           Inl e \<Rightarrow> (Some e, fs3)
                         | Inr fs4 \<Rightarrow> (None, fs4)))))"

definition deploy_lists :: "'n number_ops \<Rightarrow> fs \<Rightarrow> 'n device \<Rightarrow> error option \<times> fs" where
  "deploy_lists ops fs1 dev =
     (let listsPath = path_join (deployedPath (manager (image dev))) ''lists.json'';
          listConfig = buildList ops dev
      in if existsSync fs1 (l_path listConfig)
         then (Some (DeployError DEVICE_ALREADY_DEPLOYED), fs1)
         else if \<not> existsSync fs1 listsPath
         then (case writeFileSync fs1 listsPath (Json (JArray [listConfig])) of
                 Inl e \<Rightarrow> (Some e, fs1)
               | Inr fs2 \<Rightarrow> (None, fs2))
         else (case read_json fs1 listsPath of
                 Inl e \<Rightarrow> (Some e, fs1)
               | Inr j \<Rightarrow>
                   (case or_empty_array j of
                      JArray entries \<Rightarrow> deploy_append ops fs1 dev entries
                    | _ \<Rightarrow> (Some (DeployError LIST_JSON_NOT_AN_ARRAY), fs1))))"

definition deploy :: "'n number_ops \<Rightarrow> fs \<Rightarrow> 'n device \<Rightarrow> error option \<times> fs" where
  "deploy ops fs dev =
     (case isDeployed fs dev of
        Inl e \<Rightarrow> (Some e, fs)
      | Inr True \<Rightarrow> (None, fs)
      | Inr False \<Rightarrow>
          (case (if \<not> existsSync fs (deployedPath (manager (image dev)))
                 then mkdirSync fs (deployedPath (manager (image dev)))
                 else Inr fs) of
             Inl e \<Rightarrow> (Some e, fs)
           | Inr fs1 \<Rightarrow> deploy_lists ops fs1 dev))"

definition delete :: "'n number_ops \<Rightarrow> fs \<Rightarrow> 'n device \<Rightarrow> error option \<times> fs" where
  "delete ops fs dev =
     (let listsPath = path_join (deployedPath (manager (image dev))) ''lists.json''
      in if \<not> existsSync fs listsPath \<or> \<not> isFile fs listsPath
         then (Some (PlainError ''Lists file not found''), fs)
         else (case read_json fs listsPath of
                 Inl e \<Rightarrow> (Some e, fs)
               | Inr j \<Rightarrow>
                   (case or_empty_array j of
                      JArray entries \<Rightarrow>
                        (case findIndex (\<lambda>item. l_name item = opt_name (options dev)) entries of
                           None \<Rightarrow>
                             (Some (PlainError
                                (''Device '' @ opt_name (options dev) @ '' not found'')), fs)
                         | Some index \<Rightarrow>
                             (case writeFileSync fs listsPath
                                     (Json (JArray (take index entries @ drop (Suc index) entries))) of
                                Inl e \<Rightarrow> (Some e, fs)
                              | Inr fs1 \<Rightarrow>
                                  (case rmSync fs1 (l_path (buildList ops dev)) of
                                     Inl e \<Rightarrow> (Some e, fs1)
                                   | Inr fs2 \<Rightarrow> (None, fs2))))
                    | _ \<Rightarrow> (Some TypeError, fs))))"

definition getPascalCaseDeviceType :: "image \<Rightarrow> string option" where
  "getPascalCaseDeviceType img =
     (let deviceType = toLowerCase (getDeviceType img)
      in if deviceType = [] then None
         else if deviceType = ''pc'' then Some ''2in1 Foldable''
         else find (\<lambda>key. key = deviceType)
                [''phone'', ''tablet'', ''2in1'', ''foldable'', ''widefold'', ''triplefold'',
                 ''2in1 foldable'', ''tv'', ''wearable''])"

text \<open>
  \<open>createScreenLike\<close>; \<open>productConfig\<close> is what \<open>this.getProductConfig()\<close>
  returned for the image.
\<close>

definition createScreenLike ::
  "'n number_ops \<Rightarrow> image \<Rightarrow> product_config_item list \<Rightarrow> FullDeployedImageOptions \<Rightarrow>
   'n screen_like" where
  "createScreenLike ops img productConfig listsJsonItem =
     (let raw = Screen \<lparr> diagonal = js_Number ops (l_diagonalSize listsJsonItem),
                         density = js_Number ops (l_density listsJsonItem),
                         height = js_Number ops (l_resolutionHeight listsJsonItem),
                         width = js_Number ops (l_resolutionWidth listsJsonItem) \<rparr>
      in if \<not> truthy (l_model listsJsonItem) then raw
         else (case (find (\<lambda>item. Some (pc_name item) = l_model listsJsonItem) productConfig,
                     getPascalCaseDeviceType img) of
                 (Some productConfigItem, Some pascalCaseDeviceType) \<Rightarrow>
                   if screenDiagonal productConfigItem \<noteq> l_diagonalSize listsJsonItem \<or>
                      screenHeight productConfigItem \<noteq> l_resolutionHeight listsJsonItem \<or>
                      screenWidth productConfigItem \<noteq> l_resolutionWidth listsJsonItem \<or>
                      screenDensity productConfigItem \<noteq> l_density listsJsonItem
                   then raw
                   else ProductPreset productConfigItem pascalCaseDeviceType
               | _ \<Rightarrow> raw))"

text \<open>
  \<open>path.resolve(base, rel)\<close> for a relative \<open>rel\<close> with separators: its non-empty
  segments are appended.
\<close>

definition path_resolve_rel :: "char \<Rightarrow> path \<Rightarrow> string \<Rightarrow> path" where
  "path_resolve_rel sep base rel = base @ filter (\<lambda>s. s \<noteq> []) (js_split sep rel)"

text \<open>
  The loop of \<open>getDevices\<close> over the registry's records. \<open>INI_parse\<close> is the
  \<open>ini\<close> package's reader, \<open>rnd\<close> the uuid each constructor draws (replaced at once
  by the record's).
\<close>

fun getDevices_loop ::
  "'n number_ops \<Rightarrow> (content \<Rightarrow> ini) \<Rightarrow> product_config_item list \<Rightarrow> string \<Rightarrow> fs \<Rightarrow> image \<Rightarrow>
   FullDeployedImageOptions list \<Rightarrow> 'n device list \<Rightarrow> error + 'n device list" where
  "getDevices_loop ops INI_parse productConfig rnd fs img [] devices = Inr devices"
| "getDevices_loop ops INI_parse productConfig rnd fs img (listsJsonItem # rest) devices =
     (let mo = manager img;
          iniFilePath = path_resolve (l_path listsJsonItem) ''config.ini''
      in if path_resolve_rel (path_sep mo) (imageBasePath mo) (l_imageDir listsJsonItem)
              \<noteq> getFsPath img
         then getDevices_loop ops INI_parse productConfig rnd fs img rest devices
         else if \<not> existsSync fs iniFilePath \<or> \<not> isFile fs iniFilePath
         then getDevices_loop ops INI_parse productConfig rnd fs img rest devices
         else (case readFileSync fs iniFilePath of
                 Inl e \<Rightarrow> Inl e
               | Inr c \<Rightarrow>
                   (let device =
                          setCachedIni (INI_parse c)
                            (setCachedList listsJsonItem
                              (setUuid (l_uuid listsJsonItem)
                                (createDevice img
                                   \<lparr> opt_name = l_name listsJsonItem,
                                     cpuNumber = js_Number ops (l_cpuNumber listsJsonItem),
                                     diskSize = js_Number ops (l_dataDiskSize listsJsonItem),
                                     memorySize = js_Number ops (l_memoryRamSize listsJsonItem),
                                     screen = createScreenLike ops img productConfig listsJsonItem \<rparr>
                                   rnd)))
                    in if \<not> existsSync fs (l_path listsJsonItem) \<or>
                          \<not> isDirectory fs (l_path listsJsonItem)
                       then getDevices_loop ops INI_parse productConfig rnd fs img rest devices
                       else getDevices_loop ops INI_parse productConfig rnd fs img rest
                              (devices @ [device]))))"

definition getDevices ::
  "'n number_ops \<Rightarrow> (content \<Rightarrow> ini) \<Rightarrow> product_config_item list \<Rightarrow> string \<Rightarrow> fs \<Rightarrow> image \<Rightarrow>
   error + 'n device list" where
  "getDevices ops INI_parse productConfig rnd fs img =
     (let mo = manager img;
          listsJsonPath = path_resolve (deployedPath mo) ''lists.json''
      in if \<not> existsSync fs listsJsonPath \<or> \<not> isFile fs listsJsonPath then Inr []
         else (case read_json fs listsJsonPath of
                 Inl e \<Rightarrow> Inl e
               | Inr listsJson \<Rightarrow>
                   (case listsJson of
                      JArray items \<Rightarrow>
                        if \<not> isLocal img then Inr []
                        else getDevices_loop ops INI_parse productConfig rnd fs img items []
                    | _ \<Rightarrow> Inr [])))"

text \<open>The records of the registry file of a device's manager; none when it is not an array.\<close>

definition registry_entries :: "fs \<Rightarrow> 'n device \<Rightarrow> FullDeployedImageOptions list" where
  "registry_entries fs dev =
     (case fs (path_join (deployedPath (manager (image dev))) ''lists.json'') of
        Some (File (Json (JArray entries))) \<Rightarrow> entries
      | _ \<Rightarrow> [])"

section \<open>The resumable download\<close>

text \<open>
  \<open>startDownload\<close> on a file system of byte strings. The server is a function from
  the request to what \<open>axios.get\<close> sees: a response (status, the bytes the stream
  delivers, and whether the stream then ends with an error) or a transport failure.
  \<open>dir_size\<close> is the size \<open>statSync\<close> reports for a directory.

  The result is the error the promise rejects with (if any), the file system reached,
  and the calls made in order, each with the file system it left behind: the calls on
  \<open>fs\<close>, the request handed to \<open>axios.get\<close>, and the bytes piped into the write
  stream.
\<close>

record http_request =
  req_url :: string
  req_headers :: "(string \<times> string) list"

record http_response =
  status :: nat
  body :: string
  body_error :: bool

datatype axios_result = Responded http_response | TransportFailure

datatype write_flag = Flag_a | Flag_w

datatype download_call =
  Call_mkdirSync path
| Call_get http_request
| Call_rmSync path
| Call_createWriteStream path write_flag nat
| Call_pipe string

type_synonym download_step = "download_call \<times> string file_system"

definition basename :: "string \<Rightarrow> string" where
  "basename s =
     (case filter (\<lambda>x. x \<noteq> []) (js_split CHR ''/'' s) of [] \<Rightarrow> [] | x # xs \<Rightarrow> last (x # xs))"

definition getCacheFsPath :: "manager_options \<Rightarrow> string \<Rightarrow> path" where
  "getCacheFsPath mo url = path_resolve (cachePath mo) (basename url)"

definition stat_size :: "nat \<Rightarrow> string file_system \<Rightarrow> path \<Rightarrow> nat" where
  "stat_size dir_size fs p =
     (case fs p of Some (File bytes) \<Rightarrow> length bytes | Some Dir \<Rightarrow> dir_size | None \<Rightarrow> 0)"

definition startByte :: "nat \<Rightarrow> string file_system \<Rightarrow> path \<Rightarrow> nat" where
  "startByte dir_size fs cacheFsPath =
     (if existsSync fs cacheFsPath then stat_size dir_size fs cacheFsPath else 0)"

definition range_headers :: "nat \<Rightarrow> (string \<times> string) list" where
  "range_headers start = (if start > 0 then [(''Range'', ''bytes='' @ show_nat start @ ''-'')] else [])"

definition validateStatus :: "nat \<Rightarrow> bool" where
  "validateStatus st = (st = 200 \<or> st = 206)"

definition writeStart :: "nat \<Rightarrow> nat \<Rightarrow> nat" where
  "writeStart start st = (if start > 0 \<and> st = 206 then start else 0)"

definition writeFlags :: "nat \<Rightarrow> write_flag" where
  "writeFlags ws = (if ws > 0 then Flag_a else Flag_w)"

text \<open>\<open>rmSync(p, {force: true})\<close>: nothing there is fine, a directory is an error.\<close>

definition rmSync_force :: "string file_system \<Rightarrow> path \<Rightarrow> error + string file_system" where
  "rmSync_force fs p = (case fs p of Some Dir \<Rightarrow> Inl FsError | _ \<Rightarrow> Inr (fs(p := None)))"

text \<open>
  Opening the write stream: the parent must be a directory and the path must not be
  one; \<open>w\<close> creates or truncates the file, \<open>a\<close> creates it when missing. The piped
  bytes go to the end of the file in append mode, and after \<open>start\<close> bytes in
  overwrite mode.
\<close>

definition createWriteStream ::
  "string file_system \<Rightarrow> path \<Rightarrow> write_flag \<Rightarrow> error + string file_system" where
  "createWriteStream fs p flags =
     (if p = [] then Inl FsError
      else (case fs (butlast p) of
              Some Dir \<Rightarrow>
                (case fs p of
                   Some Dir \<Rightarrow> Inl FsError
                 | Some (File old) \<Rightarrow>
                     Inr (case flags of Flag_w \<Rightarrow> fs(p \<mapsto> File []) | Flag_a \<Rightarrow> fs)
                 | None \<Rightarrow> Inr (fs(p \<mapsto> File [])))
            | _ \<Rightarrow> Inl FsError))"

definition pipe_bytes ::
  "string file_system \<Rightarrow> path \<Rightarrow> write_flag \<Rightarrow> nat \<Rightarrow> string \<Rightarrow> string file_system" where
  "pipe_bytes fs p flags start bytes =
     (case fs p of
        Some (File old) \<Rightarrow>
          (case flags of
             Flag_a \<Rightarrow> fs(p \<mapsto> File (old @ bytes))
           | Flag_w \<Rightarrow> fs(p \<mapsto> File (take start old @ replicate (start - length old) (CHR 0x00) @ bytes)))
      | _ \<Rightarrow> fs)"

definition download_request :: "nat \<Rightarrow> string file_system \<Rightarrow> manager_options \<Rightarrow> string \<Rightarrow> http_request" where
  "download_request dir_size fs mo url =
     \<lparr> req_url = url,
       req_headers = range_headers (startByte dir_size fs (getCacheFsPath mo url)) \<rparr>"

text \<open>
  \<open>startDownload\<close> in three parts: the cache directory (\<open>ensure_cachePath\<close>, the
  first two statements), the request and the check of its status (\<open>startDownload\<close>),
  and what follows an accepted response (\<open>write_response\<close>): the stale file is
  removed when the offset is positive and the response is not partial, the write stream
  is opened and the body piped into it.
\<close>

definition ensure_cachePath :: "string file_system \<Rightarrow> manager_options \<Rightarrow> error + string file_system" where
  "ensure_cachePath fs mo =
     (if \<not> existsSync fs (cachePath mo) then mkdirSync fs (cachePath mo) else Inr fs)"

definition write_response ::
  "nat \<Rightarrow> path \<Rightarrow> http_response \<Rightarrow> string file_system \<Rightarrow>
   error option \<times> string file_system \<times> download_step list" where
  "write_response start cacheFsPath response fs1 =
     (let isPartialContent = (status response = 206);
          ws = writeStart start (status response);
          flags = writeFlags ws
      in case (if start > 0 \<and> \<not> isPartialContent
               then rmSync_force fs1 cacheFsPath else Inr fs1) of
           Inl e \<Rightarrow> (Some e, fs1, [(Call_rmSync cacheFsPath, fs1)])
         | Inr fs2 \<Rightarrow>
             (let removed = (if start > 0 \<and> \<not> isPartialContent
                             then [(Call_rmSync cacheFsPath, fs2)] else [])
              in case createWriteStream fs2 cacheFsPath flags of
                   Inl e \<Rightarrow>
                     (Some e, fs2,
                      removed @ [(Call_createWriteStream cacheFsPath flags ws, fs2)])
                 | Inr fs3 \<Rightarrow>
                     (let fs4 = pipe_bytes fs3 cacheFsPath flags ws (body response)
                      in (if body_error response then Some StreamError else None, fs4,
                          removed @ [(Call_createWriteStream cacheFsPath flags ws, fs3),
                                     (Call_pipe (body response), fs4)]))))"

definition startDownload ::
  "nat \<Rightarrow> (http_request \<Rightarrow> axios_result) \<Rightarrow> manager_options \<Rightarrow> string \<Rightarrow> string file_system \<Rightarrow>
   error option \<times> string file_system \<times> download_step list" where
  "startDownload dir_size server mo url fs =
     (let cacheFsPath = getCacheFsPath mo url
      in case ensure_cachePath fs mo of
           Inl e \<Rightarrow> (Some e, fs, [(Call_mkdirSync (cachePath mo), fs)])
         | Inr fs1 \<Rightarrow>
             (let made = (if \<not> existsSync fs (cachePath mo)
                          then [(Call_mkdirSync (cachePath mo), fs1)] else []);
                  start = startByte dir_size fs1 cacheFsPath;
                  request = download_request dir_size fs1 mo url
              in case server request of
                   TransportFailure \<Rightarrow> (Some NetworkError, fs1, made @ [(Call_get request, fs1)])
                 | Responded response \<Rightarrow>
                     if \<not> validateStatus (status response)
                     then (Some (AxiosError (status response)), fs1,
                           made @ [(Call_get request, fs1)])
                     else (case write_response start cacheFsPath response fs1 of
                             (err, fs4, steps) \<Rightarrow>
                               (err, fs4, made @ [(Call_get request, fs1)] @ steps))))"

text \<open>The calls up to and including the request, when the cache directory is in place.\<close>

definition request_steps ::
  "nat \<Rightarrow> string file_system \<Rightarrow> string file_system \<Rightarrow> manager_options \<Rightarrow> string \<Rightarrow>
   download_step list" where
  "request_steps dir_size fs fs1 mo url =
     (if \<not> existsSync fs (cachePath mo) then [(Call_mkdirSync (cachePath mo), fs1)] else []) @
     [(Call_get (download_request dir_size fs1 mo url), fs1)]"

section \<open>Reading a configuration text back\<close>

text \<open>
  Modelled from the spec: the repository has no reader of its own for the configuration
  text (it hands the file to the \<open>ini\<close> package). The round-trip property reads the
  text back "as key/value pairs": the non-empty lines, each split at its first \<open>=\<close>.
  \<open>ini_safe\<close> says that no key holds \<open>=\<close> or a newline and no value a newline.
\<close>

definition split_key_value :: "string \<Rightarrow> string \<times> string" where
  "split_key_value line =
     (takeWhile (\<lambda>c. c \<noteq> CHR ''='') line, drop 1 (dropWhile (\<lambda>c. c \<noteq> CHR ''='') line))"

definition parse_key_values :: "string \<Rightarrow> (string \<times> string) list" where
  "parse_key_values text =
     map split_key_value (filter (\<lambda>l. l \<noteq> []) (js_split newline text))"

definition ini_safe :: "(string \<times> string) list \<Rightarrow> bool" where
  "ini_safe es =
     list_all (\<lambda>kv. CHR ''='' \<notin> set (fst kv) \<and> newline \<notin> set (fst kv) \<and>
                     newline \<notin> set (snd kv)) es"

section \<open>Concrete inputs\<close>

text \<open>
  A runtime restricted to natural numbers (\<open>Number("18.00")\<close> is 18, \<open>(18).toFixed(2)\<close>
  is \<open>18.00\<close>), and the MateBook Fold preset on a \<open>pc\<close> image with 4 cores,
  4096 MB of memory and a 6144 MB disk.
\<close>

definition digits_value :: "string \<Rightarrow> nat" where
  "digits_value s =
     foldl (\<lambda>acc c. 10 * acc + (of_char c - 48)) 0 (takeWhile (\<lambda>c. c \<noteq> CHR ''.'') s)"

definition nat_ops :: "nat number_ops" where
  "nat_ops = \<lparr> js_Number = digits_value, js_toFixed = show_nat,
      js_toFixed2 = (\<lambda>n. show_nat n @ ''.00''), js_toString = show_nat \<rparr>"

definition demo_manager :: manager_options where
  "demo_manager = \<lparr> imageBasePath = [''images''], deployedPath = [''deployed''],
      cachePath = [''images'', ''cache''], configPath = ''/config'', logPath = ''/log'',
      path_sep = CHR ''/'' \<rparr>"

definition demo_image :: image where
  "demo_image = \<lparr> response_path = ''system-image,HarmonyOS-6.0.2,pc_all_arm'',
      response_version = ''6.0.0.129'', response_apiVersion = ''22'',
      response_releaseType = ''Beta1'',
      resolvedFsPath = [''images'', ''system-image'', ''HarmonyOS-6.0.2'', ''pc_all_arm''],
      isLocal = True, manager = demo_manager \<rparr>"

definition mateBookFold :: product_config_item where
  "mateBookFold = \<lparr> pc_name = ''MateBook Fold'', pc_devModel = Some ''PCEMU-FD05'',
      screenWidth = ''3296'', screenHeight = ''2472'', screenDiagonal = ''18.00'',
      screenDensity = ''288'', outerScreenWidth = Some ''2472'',
      outerScreenHeight = Some ''1648'', outerScreenDiagonal = Some ''13'' \<rparr>"

definition demo_options :: "nat device_options" where
  "demo_options = \<lparr> opt_name = ''MateBook Fold'', cpuNumber = 4, diskSize = 6144,
      memorySize = 4096, screen = ProductPreset mateBookFold ''2in1 Foldable'' \<rparr>"

definition demo_device :: "nat device" where
  "demo_device = createDevice demo_image demo_options ''11111111-2222-3333-4444-555555555555''"

definition raw_options :: "nat device_options" where
  "raw_options = \<lparr> opt_name = ''Custom'', cpuNumber = 4, diskSize = 6144,
      memorySize = 4096,
      screen = Screen \<lparr> diagonal = 6, density = 320, height = 2400, width = 1080 \<rparr> \<rparr>"

definition raw_device :: "nat device" where
  "raw_device = createDevice demo_image raw_options ''11111111-2222-3333-4444-555555555555''"

text \<open>The seven \<open>hw.lcd.*\<close> keys of the screen derivation, and their values in a mapping.\<close>

definition lcd_keys :: "string list" where
  "lcd_keys = [''hw.lcd.single.diagonalSize'', ''hw.lcd.single.height'', ''hw.lcd.single.width'',
     ''hw.lcd.number'', ''hw.lcd.double.diagonalSize'', ''hw.lcd.double.height'',
     ''hw.lcd.double.width'']"

definition lcd_fields :: "ini \<Rightarrow> string option option list" where
  "lcd_fields m = map (obj_get m) lcd_keys"

text \<open>Two mappings with the same keys in the same order that agree off the key \<open>uuid\<close>.\<close>

definition same_except_uuid :: "ini \<Rightarrow> ini \<Rightarrow> bool" where
  "same_except_uuid a b =
     list_all2 (\<lambda>x y. fst x = fst y \<and> (fst x \<noteq> ''uuid'' \<longrightarrow> snd x = snd y)) a b"

text \<open>The MateBook Fold preset without its outer diagonal: single mode, with outer pixels.\<close>

definition no_diagonal_device :: "nat device" where
  "no_diagonal_device =
     createDevice demo_image
       (demo_options\<lparr>screen :=
          ProductPreset (mateBookFold\<lparr>outerScreenDiagonal := None\<rparr>) ''2in1 Foldable''\<rparr>)
       ''11111111-2222-3333-4444-555555555555''"

text \<open>
  The MateBook Fold preset without a device model: of the record's two optional fields
  \<open>model\<close> is populated and \<open>devModel\<close> is omitted.
\<close>

definition no_model_device :: "nat device" where
  "no_model_device =
     createDevice demo_image
       (demo_options\<lparr>screen :=
          ProductPreset (mateBookFold\<lparr>pc_devModel := None\<rparr>) ''2in1 Foldable''\<rparr>)
       ''11111111-2222-3333-4444-555555555555''"

text \<open>
  A device whose name holds a newline, on the preset without a device model (the
  optional \<open>deviceModel\<close> is omitted, \<open>productModel\<close> is populated).
\<close>

definition nl_device :: "nat device" where
  "nl_device = createDevice demo_image
     (demo_options\<lparr>opt_name := ''Mate'' @ [newline] @ ''Book'',
         screen := ProductPreset (mateBookFold\<lparr>pc_devModel := None\<rparr>) ''2in1 Foldable''\<rparr>)
     ''11111111-2222-3333-4444-555555555555''"

text \<open>
  File systems: only the deployment directory (\<open>fs_first\<close>); with an empty registry
  (\<open>fs_registry\<close>); with the MateBook Fold deployed (\<open>fs_deployed\<close>); with a
  registry file that holds \<open>null\<close> or a JSON object.
\<close>

definition fs_first :: fs where
  "fs_first = (\<lambda>p. None)([] \<mapsto> Dir, [''deployed''] \<mapsto> Dir)"

definition fs_registry :: fs where
  "fs_registry = fs_first([''deployed'', ''lists.json''] \<mapsto> File (Json (JArray [])))"

definition fs_deployed :: fs where
  "fs_deployed =
     fs_first([''deployed'', ''lists.json''] \<mapsto>
                File (Json (JArray [buildList nat_ops demo_device])),
              [''deployed'', ''MateBook Fold''] \<mapsto> Dir,
              [''deployed'', ''MateBook Fold'', ''config.ini''] \<mapsto>
                File (Text (toIniString nat_ops demo_device)))"

definition fs_null :: fs where
  "fs_null = fs_first([''deployed'', ''lists.json''] \<mapsto> File (Json JNull))"

definition fs_object :: fs where
  "fs_object = fs_first([''deployed'', ''lists.json''] \<mapsto> File (Json JOther))"

text \<open>
  A cache that holds four bytes of \<open>image.zip\<close>, one where \<open>image.zip\<close> is a
  directory, one that holds nothing, and servers that honour the range request (206
  with the rest), ignore it (200 with everything), or answer 404.
\<close>

definition cache_partial :: "string file_system" where
  "cache_partial =
     (\<lambda>p. None)([] \<mapsto> Dir, [''images''] \<mapsto> Dir, [''images'', ''cache''] \<mapsto> Dir,
                [''images'', ''cache'', ''image.zip''] \<mapsto> File ''PK12'')"

definition cache_dir :: "string file_system" where
  "cache_dir =
     (\<lambda>p. None)([] \<mapsto> Dir, [''images''] \<mapsto> Dir, [''images'', ''cache''] \<mapsto> Dir,
                [''images'', ''cache'', ''image.zip''] \<mapsto> Dir)"

definition cache_none :: "string file_system" where
  "cache_none = (\<lambda>p. None)([] \<mapsto> Dir, [''images''] \<mapsto> Dir)"

definition server_206 :: "http_request \<Rightarrow> axios_result" where
  "server_206 req = Responded \<lparr> status = 206, body = ''3456'', body_error = False \<rparr>"

definition server_200 :: "http_request \<Rightarrow> axios_result" where
  "server_200 req = Responded \<lparr> status = 200, body = ''PK123456'', body_error = False \<rparr>"

definition server_404 :: "http_request \<Rightarrow> axios_result" where
  "server_404 req = Responded \<lparr> status = 404, body = ''not found'', body_error = False \<rparr>"

section \<open>Objects: lookup after assignment and spread\<close>

lemma map_of_obj_set: "map_of (obj_set k v m) = (map_of m)(k \<mapsto> v)"
  by (induction m) (auto simp: fun_eq_iff)

lemma map_of_spread_aux:
  "map_of (foldl (\<lambda>acc kv. obj_set (fst kv) (snd kv) acc) m src) k =
     (case map_of (rev src) k of Some v \<Rightarrow> Some v | None \<Rightarrow> map_of m k)"
proof (induction src arbitrary: m)
  case Nil
  then show ?case by simp
next
  case (Cons kv src)
  show ?case
    by (cases kv) (simp add: Cons.IH map_of_obj_set map_add_def split: option.splits)
qed

lemma obj_get_spread:
  "obj_get (spread m src) k =
     (case map_of (rev src) k of Some v \<Rightarrow> Some v | None \<Rightarrow> obj_get m k)"
  by (simp add: spread_def obj_get_def map_of_spread_aux split: option.splits)

lemma obj_get_obj_set: "obj_get (obj_set k v m) k' = (if k' = k then Some v else obj_get m k')"
  by (simp add: obj_get_def map_of_obj_set)

lemma obj_get_Nil: "obj_get [] k = None"
  by (simp add: obj_get_def)

lemma obj_get_Cons: "obj_get ((k, v) # m) k' = (if k' = k then Some v else obj_get m k')"
  by (simp add: obj_get_def)

lemmas obj_simps = obj_get_Nil obj_get_Cons obj_get_obj_set obj_get_spread

lemma map_of_rev_None: "k \<notin> fst ` set src \<Longrightarrow> map_of (rev src) k = None"
  by (simp add: map_of_eq_None_iff)

lemma map_of_rev_lcd:
  assumes "set lcd_keys \<inter> fst ` set src = {}" and "k \<in> set lcd_keys"
  shows "map_of (rev src) k = None"
  using assms by (intro map_of_rev_None) blast

lemmas demo_defs = demo_device_def raw_device_def no_diagonal_device_def createDevice_def demo_options_def
  raw_options_def mateBookFold_def demo_image_def demo_manager_def nat_ops_def
  default_ini_options_def setCachedIni_def setCachedList_def setUuid_def

lemmas image_defs = getPath_def getVersion_def getApiVersion_def getReleaseType_def
  getFsPath_def getArch_def getTargetOS_def getTargetVersion_def getDeviceType_def
  getSnakecaseDeviceType_def nth_opt_def toLowerCase_def lower_char_def

lemma demo_type: "l_type (buildList ops demo_device) = ''2in1_foldable''"
  by (simp add: buildList_def demo_defs image_defs Let_def)


lemmas buildIni_defs = buildIni_def ini_phy_def ini_double_def ini_literal_def
  useDualScreen_def hasOuterScreen_def productPreset_def Let_def

section \<open>The dual-screen derivation\<close>

text \<open>
  C1, as amended. For a device with no cached mapping and overrides that bind none of
  the seven \<open>hw.lcd.*\<close> keys: when the record's type is \<open>2in1_foldable\<close>, the
  screen is a product preset and the preset defines the outer width, height and diagonal,
  the single fields are the outer diagonal, height and width, the number is 2 and the
  double fields are the preset's own diagonal, height and width; in every other case the
  single fields are the screen's own diagonal, height and width, the number is 1 and
  there is no double field.
\<close>

theorem buildIni_dual_screen:
  assumes nc: "cachedIni dev = None"
    and ov: "set lcd_keys \<inter> fst ` set (overrides opts) = {}"
  shows
    "(case screen (options dev) of
        ProductPreset pc dt \<Rightarrow>
          (if l_type (buildList ops dev) = ''2in1_foldable'' \<and> outerScreenWidth pc \<noteq> None \<and>
              outerScreenHeight pc \<noteq> None \<and> outerScreenDiagonal pc \<noteq> None
           then lcd_fields (buildIni ops dev opts) =
                  [Some (outerScreenDiagonal pc), Some (outerScreenHeight pc),
                   Some (outerScreenWidth pc), Some (Some ''2''),
                   Some (Some (screenDiagonal pc)), Some (Some (screenHeight pc)),
                   Some (Some (screenWidth pc))]
           else lcd_fields (buildIni ops dev opts) =
                  [Some (Some (js_toString ops (diagonal (toScreen ops pc)))),
                   Some (Some (js_toString ops (height (toScreen ops pc)))),
                   Some (Some (js_toString ops (width (toScreen ops pc)))), Some (Some ''1''),
                   None, None, None])
      | Screen s \<Rightarrow>
          lcd_fields (buildIni ops dev opts) =
            [Some (Some (js_toString ops (diagonal s))), Some (Some (js_toString ops (height s))),
             Some (Some (js_toString ops (width s))), Some (Some ''1''), None, None, None])"
proof -
  have o: "\<And>k. k \<in> set lcd_keys \<Longrightarrow> map_of (rev (overrides opts)) k = None"
    using ov by (rule map_of_rev_lcd)
  have o1: "map_of (rev (overrides opts)) ''hw.lcd.single.diagonalSize'' = None"
    and o2: "map_of (rev (overrides opts)) ''hw.lcd.single.height'' = None"
    and o3: "map_of (rev (overrides opts)) ''hw.lcd.single.width'' = None"
    and o4: "map_of (rev (overrides opts)) ''hw.lcd.number'' = None"
    and o5: "map_of (rev (overrides opts)) ''hw.lcd.double.diagonalSize'' = None"
    and o6: "map_of (rev (overrides opts)) ''hw.lcd.double.height'' = None"
    and o7: "map_of (rev (overrides opts)) ''hw.lcd.double.width'' = None"
    by (rule o, simp add: lcd_keys_def)+
  note os = o1 o2 o3 o4 o5 o6 o7
  show ?thesis
  proof (cases "screen (options dev)")
    case (Screen s)
    then show ?thesis
      using nc os
      by (simp add: buildIni_defs obj_simps lcd_fields_def lcd_keys_def getScreen_def)
  next
    case (ProductPreset pc dt)
    show ?thesis
    proof (cases "l_type (buildList ops dev) = ''2in1_foldable'' \<and> outerScreenWidth pc \<noteq> None \<and>
              outerScreenHeight pc \<noteq> None \<and> outerScreenDiagonal pc \<noteq> None")
      case True
      then show ?thesis
        using nc os ProductPreset
        by (simp add: buildIni_defs obj_simps lcd_fields_def lcd_keys_def getScreen_def)
    next
      case False
      then have h: "\<not> hasOuterScreen ops dev"
        using ProductPreset by (auto simp: hasOuterScreen_def productPreset_def)
      show ?thesis
        using nc os ProductPreset False h
        by (simp add: buildIni_def ini_phy_def ini_double_def ini_literal_def
              useDualScreen_def productPreset_def Let_def obj_simps lcd_fields_def lcd_keys_def
              getScreen_def)
    qed
  qed
qed

text \<open>
  The MateBook Fold on a \<open>pc\<close> image selects dual mode (single 13/1648/2472, double
  18.00/2472/3296, number 2); without its outer diagonal it stays in single mode with
  number 1 and no double field, and so does a raw screen.
\<close>

theorem buildIni_dual_screen_witness:
  "cachedIni demo_device = None \<and>
   set lcd_keys \<inter> fst ` set (overrides default_ini_options) = {} \<and>
   lcd_fields (buildIni nat_ops demo_device default_ini_options) =
     [Some (Some ''13''), Some (Some ''1648''), Some (Some ''2472''), Some (Some ''2''),
      Some (Some ''18.00''), Some (Some ''2472''), Some (Some ''3296'')] \<and>
   lcd_fields (buildIni nat_ops no_diagonal_device default_ini_options) =
     [Some (Some ''18''), Some (Some ''2472''), Some (Some ''3296''), Some (Some ''1''),
      None, None, None] \<and>
   lcd_fields (buildIni nat_ops raw_device default_ini_options) =
     [Some (Some ''6''), Some (Some ''2400''), Some (Some ''1080''), Some (Some ''1''),
      None, None, None]"
proof -
  have h1: "cachedIni demo_device = None"
    by (simp add: demo_defs)
  have h1': "cachedIni raw_device = None"
    by (simp add: demo_defs)
  have h1'': "cachedIni no_diagonal_device = None"
    by (simp add: demo_defs)
  have h2: "set lcd_keys \<inter> fst ` set (overrides default_ini_options) = {}"
    by (simp add: demo_defs)
  have s6: "show_nat 6 = ''6''" and s2400: "show_nat 2400 = ''2400''"
    and s1080: "show_nat 1080 = ''1080''"
    by (simp_all add: show_nat.simps)
  have n: "show_nat (digits_value ''18.00'') = ''18''"
    "show_nat (digits_value ''2472'') = ''2472''"
    "show_nat (digits_value ''3296'') = ''3296''"
    by (simp_all add: show_nat.simps digits_value_def)
  have a: "lcd_fields (buildIni nat_ops demo_device default_ini_options) =
     [Some (Some ''13''), Some (Some ''1648''), Some (Some ''2472''), Some (Some ''2''),
      Some (Some ''18.00''), Some (Some ''2472''), Some (Some ''3296'')]"
    using buildIni_dual_screen [OF h1 h2, of nat_ops] demo_type [of nat_ops]
    by (simp add: demo_device_def createDevice_def demo_options_def mateBookFold_def)
  have b: "lcd_fields (buildIni nat_ops raw_device default_ini_options) =
     [Some (Some ''6''), Some (Some ''2400''), Some (Some ''1080''), Some (Some ''1''),
      None, None, None]"
    using buildIni_dual_screen [OF h1' h2, of nat_ops] s6 s2400 s1080
    by (simp add: raw_device_def createDevice_def raw_options_def nat_ops_def)
  have c: "lcd_fields (buildIni nat_ops no_diagonal_device default_ini_options) =
     [Some (Some ''18''), Some (Some ''2472''), Some (Some ''3296''), Some (Some ''1''),
      None, None, None]"
    using buildIni_dual_screen [OF h1'' h2, of nat_ops] n
    by (simp add: no_diagonal_device_def createDevice_def demo_options_def mateBookFold_def
          nat_ops_def toScreen_def)
  show ?thesis
    using h1 h2 a b c by simp
qed

text \<open>
  C1 as stated fails on a device that carries a cached mapping, and on overrides that
  bind \<open>hw.lcd.number\<close>: the device meets all three conditions of dual mode, and the
  number field is not 2.
\<close>

theorem buildIni_dual_screen_counterexample:
  "l_type (buildList nat_ops (setCachedIni [(''hw.lcd.number'', Some ''1'')] demo_device))
     = ''2in1_foldable'' \<and>
   screen (options (setCachedIni [(''hw.lcd.number'', Some ''1'')] demo_device))
     = ProductPreset mateBookFold ''2in1 Foldable'' \<and>
   outerScreenWidth mateBookFold \<noteq> None \<and> outerScreenHeight mateBookFold \<noteq> None \<and>
   outerScreenDiagonal mateBookFold \<noteq> None \<and>
   lcd_fields (buildIni nat_ops (setCachedIni [(''hw.lcd.number'', Some ''1'')] demo_device)
       default_ini_options)
     = [None, None, None, Some (Some ''1''), None, None, None] \<and>
   obj_get (buildIni nat_ops demo_device
       (default_ini_options\<lparr>overrides := [(''hw.lcd.number'', Some ''7'')]\<rparr>)) ''hw.lcd.number''
     = Some (Some ''7'')"
proof -
  have t: "l_type (buildList nat_ops (setCachedIni [(''hw.lcd.number'', Some ''1'')] demo_device))
     = ''2in1_foldable''"
    by (simp add: buildList_def demo_defs image_defs Let_def)
  have c: "lcd_fields (buildIni nat_ops (setCachedIni [(''hw.lcd.number'', Some ''1'')] demo_device)
       default_ini_options)
     = [None, None, None, Some (Some ''1''), None, None, None]"
    by (simp add: buildIni_def setCachedIni_def lcd_fields_def lcd_keys_def obj_simps)
  have o: "obj_get (buildIni nat_ops demo_device
       (default_ini_options\<lparr>overrides := [(''hw.lcd.number'', Some ''7'')]\<rparr>)) ''hw.lcd.number''
     = Some (Some ''7'')"
    by (simp add: buildIni_defs obj_simps demo_device_def createDevice_def
          demo_options_def mateBookFold_def default_ini_options_def)
  show ?thesis
    using t c o by (simp add: demo_defs)
qed

section \<open>The customisation flag\<close>

text \<open>
  C10, as amended. For a device with no cached mapping and overrides that do not bind
  \<open>isCustomize\<close>, the mapping binds \<open>isCustomize\<close> to \<open>false\<close> when the screen
  is a product preset and to \<open>true\<close> when it is a raw screen.
\<close>

theorem buildIni_isCustomize:
  assumes "cachedIni dev = None" and "''isCustomize'' \<notin> fst ` set (overrides opts)"
  shows "obj_get (buildIni ops dev opts) ''isCustomize'' =
     Some (Some (case screen (options dev) of
                   ProductPreset pc dt \<Rightarrow> ''false''
                 | Screen s \<Rightarrow> ''true''))"
proof -
  have ov: "map_of (rev (overrides opts)) ''isCustomize'' = None"
    using assms(2) by (rule map_of_rev_None)
  show ?thesis
  proof (cases "screen (options dev)")
    case (Screen s)
    then show ?thesis
      using assms(1) ov
      by (simp add: buildIni_def ini_phy_def ini_double_def ini_literal_def productPreset_def
            Let_def obj_simps)
  next
    case (ProductPreset pc dt)
    then show ?thesis
      using assms(1) ov
      by (simp add: buildIni_def ini_phy_def ini_double_def ini_literal_def productPreset_def
            Let_def obj_simps)
  qed
qed

theorem buildIni_isCustomize_witness:
  "cachedIni demo_device = None \<and>
   ''isCustomize'' \<notin> fst ` set (overrides default_ini_options) \<and>
   obj_get (buildIni nat_ops demo_device default_ini_options) ''isCustomize''
     = Some (Some ''false'') \<and>
   obj_get (buildIni nat_ops raw_device default_ini_options) ''isCustomize''
     = Some (Some ''true'')"
proof -
  have h1: "cachedIni demo_device = None" and h1': "cachedIni raw_device = None"
    by (simp_all add: demo_defs)
  have h2: "''isCustomize'' \<notin> fst ` set (overrides default_ini_options)"
    by (simp add: demo_defs)
  have a: "obj_get (buildIni nat_ops demo_device default_ini_options) ''isCustomize''
     = Some (Some ''false'')"
    using buildIni_isCustomize [OF h1 h2, of nat_ops]
    by (simp add: demo_device_def createDevice_def demo_options_def)
  have b: "obj_get (buildIni nat_ops raw_device default_ini_options) ''isCustomize''
     = Some (Some ''true'')"
    using buildIni_isCustomize [OF h1' h2, of nat_ops]
    by (simp add: raw_device_def createDevice_def raw_options_def)
  show ?thesis
    using h1 h2 a b by simp
qed

text \<open>
  C10 as stated fails on a device that carries a cached mapping: \<open>buildIni\<close> returns
  the cached mapping, here one without the key.
\<close>

theorem buildIni_isCustomize_counterexample:
  "''isCustomize'' \<notin> fst ` set (overrides default_ini_options) \<and>
   obj_get (buildIni nat_ops (setCachedIni [(''name'', Some ''MateBook Fold'')] demo_device)
      default_ini_options) ''isCustomize'' = None"
  by (simp add: buildIni_def setCachedIni_def obj_simps default_ini_options_def)

section \<open>Overrides and the fields written after them\<close>

text \<open>
  C4 fails on the code. The overrides are spread at the end of the object literal, but
  the dual-screen fields and the physical-size fields are assigned afterwards: an
  override of \<open>hw.lcd.double.width\<close> on the MateBook Fold is replaced by the preset's
  3296, and an override of \<open>hw.phy.width\<close> on the preset without outer diagonal is
  replaced by the outer width 2472. An override of a key of the literal does win.
\<close>

theorem buildIni_overrides_lost:
  "obj_get (buildIni nat_ops demo_device
       (default_ini_options\<lparr>overrides := [(''hw.lcd.double.width'', Some ''9999'')]\<rparr>))
     ''hw.lcd.double.width'' = Some (Some ''3296'') \<and>
   obj_get (buildIni nat_ops no_diagonal_device
       (default_ini_options\<lparr>overrides := [(''hw.phy.width'', Some ''9999'')]\<rparr>))
     ''hw.phy.width'' = Some (Some ''2472'') \<and>
   obj_get (buildIni nat_ops demo_device
       (default_ini_options\<lparr>overrides := [(''hw.cpu.ncore'', Some ''9999'')]\<rparr>))
     ''hw.cpu.ncore'' = Some (Some ''9999'')"
proof -
  have t: "l_type (buildList nat_ops demo_device) = ''2in1_foldable''"
    by (rule demo_type)
  have a: "obj_get (buildIni nat_ops demo_device
       (default_ini_options\<lparr>overrides := [(''hw.lcd.double.width'', Some ''9999'')]\<rparr>))
     ''hw.lcd.double.width'' = Some (Some ''3296'')"
    using t
    by (simp add: buildIni_defs obj_simps demo_device_def createDevice_def demo_options_def
          mateBookFold_def default_ini_options_def)
  have b: "obj_get (buildIni nat_ops no_diagonal_device
       (default_ini_options\<lparr>overrides := [(''hw.phy.width'', Some ''9999'')]\<rparr>))
     ''hw.phy.width'' = Some (Some ''2472'')"
    by (simp add: buildIni_defs obj_simps no_diagonal_device_def createDevice_def
          demo_options_def mateBookFold_def default_ini_options_def truthy_def)
  have c: "obj_get (buildIni nat_ops demo_device
       (default_ini_options\<lparr>overrides := [(''hw.cpu.ncore'', Some ''9999'')]\<rparr>))
     ''hw.cpu.ncore'' = Some (Some ''9999'')"
    using t
    by (simp add: buildIni_defs obj_simps demo_device_def createDevice_def demo_options_def
          mateBookFold_def default_ini_options_def)
  show ?thesis
    using a b c by simp
qed

section \<open>Determinism up to the drawn uuid\<close>

lemma same_obj_set:
  "same_except_uuid a b \<Longrightarrow> same_except_uuid (obj_set k v a) (obj_set k v b)"
  unfolding same_except_uuid_def
  by (induction a b rule: list_all2_induct) (auto split: if_splits)

lemma same_spread:
  "same_except_uuid a b \<Longrightarrow> same_except_uuid (spread a src) (spread b src)"
  unfolding spread_def
  by (induction src arbitrary: a b) (simp_all add: same_obj_set)

lemma buildList_uuid:
  "buildList ops (createDevice img opts u2) =
     (buildList ops (createDevice img opts u1))\<lparr>l_uuid := u2\<rparr>"
  by (simp add: buildList_def createDevice_def getScreen_def Let_def split: screen_like.splits)

lemma getScreen_uuid:
  "getScreen ops (createDevice img opts u2) = getScreen ops (createDevice img opts u1)"
  by (simp add: createDevice_def getScreen_def)

lemma productPreset_uuid:
  "productPreset (createDevice img opts u2) = productPreset (createDevice img opts u1)"
  by (simp add: createDevice_def productPreset_def)

lemma useDualScreen_uuid:
  "useDualScreen ops (createDevice img opts u2) = useDualScreen ops (createDevice img opts u1)"
  by (simp add: useDualScreen_def hasOuterScreen_def buildList_uuid [of ops img opts u2 u1]
        productPreset_uuid [of img opts u2 u1])

lemma ini_double_uuid:
  "ini_double ops (createDevice img opts u2) = ini_double ops (createDevice img opts u1)"
  by (simp add: ini_double_def fun_eq_iff useDualScreen_uuid [of ops img opts u2 u1]
        productPreset_uuid [of img opts u2 u1])

lemma ini_phy_uuid:
  "ini_phy ops (createDevice img opts u2) = ini_phy ops (createDevice img opts u1)"
  by (simp add: ini_phy_def fun_eq_iff useDualScreen_uuid [of ops img opts u2 u1]
        productPreset_uuid [of img opts u2 u1] split: option.splits)

lemma same_ini_double:
  "same_except_uuid a b \<Longrightarrow> same_except_uuid (ini_double ops dev a) (ini_double ops dev b)"
  by (auto simp: ini_double_def Let_def same_obj_set)

lemma same_ini_phy:
  "same_except_uuid a b \<Longrightarrow> same_except_uuid (ini_phy ops dev a) (ini_phy ops dev b)"
  by (simp add: ini_phy_def Let_def same_obj_set split: option.splits)

lemma same_ini_literal:
  "same_except_uuid (ini_literal ops (createDevice img opts u1) io)
                    (ini_literal ops (createDevice img opts u2) io)"
proof -
  have c: "image (createDevice img opts u2) = image (createDevice img opts u1)"
    by (simp add: createDevice_def)
  show ?thesis
    unfolding ini_literal_def Let_def same_except_uuid_def
      buildList_uuid [of ops img opts u2 u1] getScreen_uuid [of ops img opts u2 u1]
      productPreset_uuid [of img opts u2 u1] useDualScreen_uuid [of ops img opts u2 u1] c
    by simp
qed

lemma keys_obj_set: "fst ` set (obj_set k v m) = insert k (fst ` set m)"
  using arg_cong [OF map_of_obj_set [of k v m], of dom]
  by (simp add: dom_map_of_conv_image_fst)

lemma distinct_obj_set: "distinct (map fst m) \<Longrightarrow> distinct (map fst (obj_set k v m))"
proof (induction m)
  case Nil
  then show ?case by simp
next
  case (Cons x m)
  then show ?case
    using keys_obj_set [of k v m] by (cases x) auto
qed

lemma distinct_spread: "distinct (map fst m) \<Longrightarrow> distinct (map fst (spread m src))"
  unfolding spread_def by (induction src arbitrary: m) (simp_all add: distinct_obj_set)

lemma distinct_ini_literal: "distinct (map fst (ini_literal ops dev io))"
  by (simp add: ini_literal_def Let_def)

lemma distinct_ini_double: "distinct (map fst m) \<Longrightarrow> distinct (map fst (ini_double ops dev m))"
  by (simp add: ini_double_def Let_def distinct_obj_set)

lemma distinct_ini_phy: "distinct (map fst m) \<Longrightarrow> distinct (map fst (ini_phy ops dev m))"
  by (simp add: ini_phy_def Let_def distinct_obj_set split: option.splits)

lemma distinct_buildIni:
  "distinct (map fst (buildIni ops (createDevice img opts u) io))"
  by (simp add: buildIni_def createDevice_def distinct_ini_phy distinct_ini_double
        distinct_spread distinct_ini_literal)

lemma same_no_uuid:
  "list_all2 (\<lambda>x y. fst x = fst y \<and> (fst x \<noteq> ''uuid'' \<longrightarrow> snd x = snd y)) a b \<Longrightarrow>
   ''uuid'' \<notin> set (map fst a) \<Longrightarrow> a = b"
  by (induction a b rule: list_all2_induct) (auto simp: prod_eq_iff)

lemma same_equal_aux:
  "list_all2 (\<lambda>x y. fst x = fst y \<and> (fst x \<noteq> ''uuid'' \<longrightarrow> snd x = snd y)) a b \<Longrightarrow>
   distinct (map fst a) \<Longrightarrow> map_of a ''uuid'' = map_of b ''uuid'' \<Longrightarrow> a = b"
proof (induction a b rule: list_all2_induct)
  case Nil
  then show ?case by simp
next
  case (Cons x xs y ys)
  show ?case
  proof (cases "fst x = ''uuid''")
    case True
    then have "xs = ys"
      using Cons same_no_uuid [of xs ys] by auto
    moreover have "x = y"
      using Cons True by (cases x; cases y) auto
    ultimately show ?thesis by simp
  next
    case False
    then have "x = y"
      using Cons by (auto simp: prod_eq_iff)
    moreover have "xs = ys"
      using Cons False by (cases x; cases y) auto
    ultimately show ?thesis by simp
  qed
qed

lemma same_equal:
  "same_except_uuid a b \<Longrightarrow> distinct (map fst a) \<Longrightarrow> obj_get a ''uuid'' = obj_get b ''uuid'' \<Longrightarrow>
   a = b"
  unfolding same_except_uuid_def obj_get_def by (rule same_equal_aux)

lemma buildIni_uuid:
  "obj_get (buildIni ops (createDevice img opts u) io) ''uuid'' =
     (case map_of (rev (overrides io)) ''uuid'' of Some v \<Rightarrow> Some v | None \<Rightarrow> Some (Some u))"
  by (simp add: buildIni_def ini_phy_def ini_double_def ini_literal_def Let_def obj_simps
        createDevice_def split: option.splits)

lemma same_buildIni:
  "same_except_uuid (buildIni ops (createDevice img opts u1) io)
                    (buildIni ops (createDevice img opts u2) io)"
proof -
  have c: "cachedIni (createDevice img opts u1) = None"
    "cachedIni (createDevice img opts u2) = None"
    by (simp_all add: createDevice_def)
  show ?thesis
    unfolding buildIni_def c option.case ini_double_uuid [of ops img opts u2 u1]
      ini_phy_uuid [of ops img opts u2 u1]
    by (intro same_ini_phy same_ini_double same_spread same_ini_literal)
qed

lemma map_of_rev_Some: "k \<in> fst ` set src \<Longrightarrow> map_of (rev src) k \<noteq> None"
  by (simp add: map_of_eq_None_iff)

text \<open>
  C6, as amended. Two devices constructed from the same image and options differ only
  in the uuid each constructor draws. Their mappings have the same keys in the same
  order and the same value at every key other than \<open>uuid\<close>. At \<open>uuid\<close> each
  mapping holds its device's draw, unless the overrides bind \<open>uuid\<close>: then both hold
  the last value the overrides give it. So the two mappings are equal exactly when
  the two draws are equal or the overrides bind \<open>uuid\<close>.
\<close>

theorem buildIni_deterministic:
  "same_except_uuid (buildIni ops (createDevice img opts u1) io)
                    (buildIni ops (createDevice img opts u2) io) \<and>
   obj_get (buildIni ops (createDevice img opts u1) io) ''uuid'' =
     (case map_of (rev (overrides io)) ''uuid'' of Some v \<Rightarrow> Some v | None \<Rightarrow> Some (Some u1)) \<and>
   obj_get (buildIni ops (createDevice img opts u2) io) ''uuid'' =
     (case map_of (rev (overrides io)) ''uuid'' of Some v \<Rightarrow> Some v | None \<Rightarrow> Some (Some u2)) \<and>
   (buildIni ops (createDevice img opts u1) io = buildIni ops (createDevice img opts u2) io) =
     (u1 = u2 \<or> ''uuid'' \<in> fst ` set (overrides io))"
proof (intro conjI)
  show s: "same_except_uuid (buildIni ops (createDevice img opts u1) io)
                    (buildIni ops (createDevice img opts u2) io)"
    by (rule same_buildIni)
  show g1: "obj_get (buildIni ops (createDevice img opts u1) io) ''uuid'' =
     (case map_of (rev (overrides io)) ''uuid'' of Some v \<Rightarrow> Some v | None \<Rightarrow> Some (Some u1))"
    by (rule buildIni_uuid)
  show g2: "obj_get (buildIni ops (createDevice img opts u2) io) ''uuid'' =
     (case map_of (rev (overrides io)) ''uuid'' of Some v \<Rightarrow> Some v | None \<Rightarrow> Some (Some u2))"
    by (rule buildIni_uuid)
  show "(buildIni ops (createDevice img opts u1) io = buildIni ops (createDevice img opts u2) io) =
     (u1 = u2 \<or> ''uuid'' \<in> fst ` set (overrides io))"
  proof (cases "''uuid'' \<in> fst ` set (overrides io)")
    case True
    then obtain v where "map_of (rev (overrides io)) ''uuid'' = Some v"
      using map_of_rev_Some [of "''uuid''" "overrides io"] by auto
    then have "obj_get (buildIni ops (createDevice img opts u1) io) ''uuid'' =
               obj_get (buildIni ops (createDevice img opts u2) io) ''uuid''"
      by (simp add: g1 g2)
    then have "buildIni ops (createDevice img opts u1) io = buildIni ops (createDevice img opts u2) io"
      by (intro same_equal s distinct_buildIni)
    with True show ?thesis by simp
  next
    case False
    then have n: "map_of (rev (overrides io)) ''uuid'' = None"
      by (rule map_of_rev_None)
    show ?thesis
    proof (cases "u1 = u2")
      case True
      then show ?thesis by simp
    next
      case ne: False
      have "obj_get (buildIni ops (createDevice img opts u1) io) ''uuid'' \<noteq>
            obj_get (buildIni ops (createDevice img opts u2) io) ''uuid''"
        using ne by (simp add: g1 g2 n)
      then have "buildIni ops (createDevice img opts u1) io \<noteq> buildIni ops (createDevice img opts u2) io"
        by auto
      with False ne show ?thesis by simp
    qed
  qed
qed

theorem buildIni_deterministic_witness:
  "same_except_uuid
     (buildIni nat_ops (createDevice demo_image demo_options ''aaaa'') default_ini_options)
     (buildIni nat_ops (createDevice demo_image demo_options ''bbbb'') default_ini_options) \<and>
   map fst (buildIni nat_ops (createDevice demo_image demo_options ''aaaa'') default_ini_options)
     = map fst
         (buildIni nat_ops (createDevice demo_image demo_options ''bbbb'') default_ini_options) \<and>
   obj_get (buildIni nat_ops (createDevice demo_image demo_options ''aaaa'') default_ini_options)
     ''uuid'' = Some (Some ''aaaa'') \<and>
   obj_get (buildIni nat_ops (createDevice demo_image demo_options ''bbbb'') default_ini_options)
     ''uuid'' = Some (Some ''bbbb'') \<and>
   obj_get (buildIni nat_ops (createDevice demo_image demo_options ''aaaa'')
              (default_ini_options\<lparr>overrides := [(''uuid'', Some ''fixed'')]\<rparr>))
     ''uuid'' = Some (Some ''fixed'') \<and>
   buildIni nat_ops (createDevice demo_image demo_options ''aaaa'')
     (default_ini_options\<lparr>overrides := [(''uuid'', Some ''fixed'')]\<rparr>) =
   buildIni nat_ops (createDevice demo_image demo_options ''bbbb'')
     (default_ini_options\<lparr>overrides := [(''uuid'', Some ''fixed'')]\<rparr>)"
proof -
  note t = buildIni_deterministic [of nat_ops demo_image demo_options "''aaaa''"
      default_ini_options "''bbbb''"]
  note f = buildIni_deterministic [of nat_ops demo_image demo_options "''aaaa''"
      "default_ini_options\<lparr>overrides := [(''uuid'', Some ''fixed'')]\<rparr>" "''bbbb''"]
  have s: "same_except_uuid
     (buildIni nat_ops (createDevice demo_image demo_options ''aaaa'') default_ini_options)
     (buildIni nat_ops (createDevice demo_image demo_options ''bbbb'') default_ini_options)"
    using t by simp
  have "\<And>a b. same_except_uuid a b \<Longrightarrow> map fst a = map fst b"
    unfolding same_except_uuid_def
    by (erule list_all2_induct) simp_all
  with s have k: "map fst
      (buildIni nat_ops (createDevice demo_image demo_options ''aaaa'') default_ini_options)
     = map fst
         (buildIni nat_ops (createDevice demo_image demo_options ''bbbb'') default_ini_options)"
    by blast
  have u: "obj_get (buildIni nat_ops (createDevice demo_image demo_options ''aaaa'')
        default_ini_options) ''uuid'' = Some (Some ''aaaa'')"
    "obj_get (buildIni nat_ops (createDevice demo_image demo_options ''bbbb'')
        default_ini_options) ''uuid'' = Some (Some ''bbbb'')"
    using t by (simp_all add: default_ini_options_def)
  have o: "obj_get (buildIni nat_ops (createDevice demo_image demo_options ''aaaa'')
              (default_ini_options\<lparr>overrides := [(''uuid'', Some ''fixed'')]\<rparr>))
     ''uuid'' = Some (Some ''fixed'')"
    using f by simp
  have e: "buildIni nat_ops (createDevice demo_image demo_options ''aaaa'')
     (default_ini_options\<lparr>overrides := [(''uuid'', Some ''fixed'')]\<rparr>) =
   buildIni nat_ops (createDevice demo_image demo_options ''bbbb'')
     (default_ini_options\<lparr>overrides := [(''uuid'', Some ''fixed'')]\<rparr>)"
    using f by simp
  from s k u o e show ?thesis
    by (intro conjI)
qed

text \<open>
  C6 as stated fails: the constructor draws the uuid at random, and the mapping holds
  it. Two devices from the same image and options with different draws have different
  mappings.
\<close>

theorem buildIni_deterministic_counterexample:
  "obj_get (buildIni nat_ops (createDevice demo_image demo_options ''aaaa'')
       default_ini_options) ''uuid'' = Some (Some ''aaaa'') \<and>
   obj_get (buildIni nat_ops (createDevice demo_image demo_options ''bbbb'')
       default_ini_options) ''uuid'' = Some (Some ''bbbb'') \<and>
   buildIni nat_ops (createDevice demo_image demo_options ''aaaa'') default_ini_options \<noteq>
   buildIni nat_ops (createDevice demo_image demo_options ''bbbb'') default_ini_options"
proof -
  have a: "obj_get (buildIni nat_ops (createDevice demo_image demo_options ''aaaa'')
       default_ini_options) ''uuid'' = Some (Some ''aaaa'')"
    by (simp add: buildIni_def ini_phy_def ini_double_def ini_literal_def productPreset_def
          Let_def obj_simps createDevice_def demo_options_def default_ini_options_def)
  have b: "obj_get (buildIni nat_ops (createDevice demo_image demo_options ''bbbb'')
       default_ini_options) ''uuid'' = Some (Some ''bbbb'')"
    by (simp add: buildIni_def ini_phy_def ini_double_def ini_literal_def productPreset_def
          Let_def obj_simps createDevice_def demo_options_def default_ini_options_def)
  have "buildIni nat_ops (createDevice demo_image demo_options ''aaaa'') default_ini_options \<noteq>
   buildIni nat_ops (createDevice demo_image demo_options ''bbbb'') default_ini_options"
  proof
    assume "buildIni nat_ops (createDevice demo_image demo_options ''aaaa'') default_ini_options =
      buildIni nat_ops (createDevice demo_image demo_options ''bbbb'') default_ini_options"
    with a b show False by simp
  qed
  with a b show ?thesis
    by simp
qed


section \<open>The configuration text and its round trip\<close>

lemma js_split_append: "c \<notin> set l \<Longrightarrow> js_split c (l @ c # rest) = l # js_split c rest"
  by (induction l) (auto split: list.splits)

lemma join_lines:
  "lines \<noteq> [] \<Longrightarrow> js_join [c] lines @ [c] = concat (map (\<lambda>l. l @ [c]) lines)"
  by (induction "[c]" lines rule: js_join.induct) auto

lemma split_concat:
  "\<forall>l \<in> set lines. c \<notin> set l \<Longrightarrow>
   js_split c (concat (map (\<lambda>l. l @ [c]) lines)) = lines @ [[]]"
  by (induction lines) (auto simp: js_split_append)

lemma split_key_value_line:
  "CHR ''='' \<notin> set k \<Longrightarrow> split_key_value (ini_line (k, v)) = (k, v)"
  by (induction k) (auto simp: split_key_value_def ini_line_def)

lemma ini_line_newline:
  "newline \<notin> set k \<Longrightarrow> newline \<notin> set v \<Longrightarrow> newline \<notin> set (ini_line (k, v))"
  by (auto simp: ini_line_def newline_def)

lemma ini_line_not_Nil: "ini_line kv \<noteq> []"
  by (simp add: ini_line_def)

lemma parse_lines:
  assumes "ini_safe es"
  shows "parse_key_values (js_join [newline] (map ini_line es) @ [newline]) = es"
proof (cases "es = []")
  case True
  then show ?thesis
    by (simp add: parse_key_values_def)
next
  case False
  have nl: "\<forall>l \<in> set (map ini_line es). newline \<notin> set l"
    using assms by (auto simp: ini_safe_def list_all_iff ini_line_newline)
  have "js_split newline (js_join [newline] (map ini_line es) @ [newline])
          = map ini_line es @ [[]]"
    using False split_concat [OF nl] by (simp add: join_lines)
  then have "parse_key_values (js_join [newline] (map ini_line es) @ [newline])
          = map split_key_value (map ini_line es)"
    by (simp add: parse_key_values_def ini_line_not_Nil filter_id_conv)
  also have "\<dots> = es"
    using assms
    by (induction es) (auto simp: ini_safe_def split_key_value_line)
  finally show ?thesis .
qed

lemma text_lines:
  "js_join [newline] (map ini_line es) @ [newline] =
     (if es = [] then [newline]
      else concat (map (\<lambda>kv. fst kv @ ''='' @ snd kv @ [newline]) es))"
proof (cases "es = []")
  case True
  then show ?thesis by simp
next
  case False
  then have "js_join [newline] (map ini_line es) @ [newline]
               = concat (map (\<lambda>l. l @ [newline]) (map ini_line es))"
    by (simp add: join_lines)
  then show ?thesis
    using False by (simp add: comp_def ini_line_def)
qed

lemma defined_entries_filter:
  "defined_entries m = map (\<lambda>kv. (fst kv, the (snd kv))) (filter (\<lambda>kv. snd kv \<noteq> None) m)"
  by (induction m) (auto simp: defined_entries_def)

lemma demo_numbers:
  "show_nat 4 = ''4''" "show_nat 4096 = ''4096''" "show_nat 6144 = ''6144''"
  "show_nat (digits_value ''288'') = ''288''"
  by (simp_all add: show_nat.simps digits_value_def)

lemma demo_ini:
  "buildIni nat_ops demo_device default_ini_options =
    [(''name'', Some ''MateBook Fold''),
     (''deviceType'', Some ''2in1_foldable''),
     (''deviceModel'', Some ''PCEMU-FD05''),
     (''productModel'', Some ''MateBook Fold''),
     (''vendorCountry'', Some ''CN''),
     (''uuid'', Some ''11111111-2222-3333-4444-555555555555''),
     (''configPath'', Some ''/config''),
     (''logPath'', Some ''/log''),
     (''sdkPath'', Some ''/images''),
     (''imageSubPath'', Some ''system-image/HarmonyOS-6.0.2/pc_all_arm/''),
     (''instancePath'', Some ''/deployed/MateBook Fold''),
     (''os.osVersion'', Some ''HarmonyOS 6.0.2(22)''),
     (''os.apiVersion'', Some ''22''),
     (''os.softwareVersion'', Some ''6.0.0.129''),
     (''os.isPublic'', Some ''true''),
     (''hw.cpu.arch'', Some ''arm''),
     (''hw.cpu.ncore'', Some ''4''),
     (''hw.lcd.density'', Some ''288''),
     (''hw.lcd.single.diagonalSize'', Some ''13''),
     (''hw.lcd.single.height'', Some ''1648''),
     (''hw.lcd.single.width'', Some ''2472''),
     (''hw.lcd.number'', Some ''2''),
     (''hw.ramSize'', Some ''4096''),
     (''hw.dataPartitionSize'', Some ''6144''),
     (''isCustomize'', Some ''false''),
     (''hw.hdc.port'', Some ''notset''),
     (''hw.lcd.double.diagonalSize'', Some ''18.00''),
     (''hw.lcd.double.height'', Some ''2472''),
     (''hw.lcd.double.width'', Some ''3296'')]"
  by (simp add: buildIni_defs spread_def demo_defs image_defs getScreen_def toScreen_def
        buildList_def path_str_def path_resolve_def truthy_def
        demo_numbers [unfolded nat_ops_def])

lemma nl_ini:
  "buildIni nat_ops nl_device default_ini_options =
    [(''name'', Some (''Mate'' @ [newline] @ ''Book'')),
     (''deviceType'', Some ''2in1_foldable''),
     (''deviceModel'', None),
     (''productModel'', Some ''MateBook Fold''),
     (''vendorCountry'', Some ''CN''),
     (''uuid'', Some ''11111111-2222-3333-4444-555555555555''),
     (''configPath'', Some ''/config''),
     (''logPath'', Some ''/log''),
     (''sdkPath'', Some ''/images''),
     (''imageSubPath'', Some ''system-image/HarmonyOS-6.0.2/pc_all_arm/''),
     (''instancePath'', Some (''/deployed/Mate'' @ [newline] @ ''Book'')),
     (''os.osVersion'', Some ''HarmonyOS 6.0.2(22)''),
     (''os.apiVersion'', Some ''22''),
     (''os.softwareVersion'', Some ''6.0.0.129''),
     (''os.isPublic'', Some ''true''),
     (''hw.cpu.arch'', Some ''arm''),
     (''hw.cpu.ncore'', Some ''4''),
     (''hw.lcd.density'', Some ''288''),
     (''hw.lcd.single.diagonalSize'', Some ''13''),
     (''hw.lcd.single.height'', Some ''1648''),
     (''hw.lcd.single.width'', Some ''2472''),
     (''hw.lcd.number'', Some ''2''),
     (''hw.ramSize'', Some ''4096''),
     (''hw.dataPartitionSize'', Some ''6144''),
     (''isCustomize'', Some ''false''),
     (''hw.hdc.port'', Some ''notset''),
     (''hw.lcd.double.diagonalSize'', Some ''18.00''),
     (''hw.lcd.double.height'', Some ''2472''),
     (''hw.lcd.double.width'', Some ''3296'')]"
  by (simp add: nl_device_def buildIni_defs spread_def demo_defs image_defs getScreen_def
        toScreen_def buildList_def path_str_def path_resolve_def truthy_def
        demo_numbers [unfolded nat_ops_def])

lemma no_model_ini:
  "buildIni nat_ops no_model_device default_ini_options =
    [(''name'', Some ''MateBook Fold''),
     (''deviceType'', Some ''2in1_foldable''),
     (''deviceModel'', None),
     (''productModel'', Some ''MateBook Fold''),
     (''vendorCountry'', Some ''CN''),
     (''uuid'', Some ''11111111-2222-3333-4444-555555555555''),
     (''configPath'', Some ''/config''),
     (''logPath'', Some ''/log''),
     (''sdkPath'', Some ''/images''),
     (''imageSubPath'', Some ''system-image/HarmonyOS-6.0.2/pc_all_arm/''),
     (''instancePath'', Some ''/deployed/MateBook Fold''),
     (''os.osVersion'', Some ''HarmonyOS 6.0.2(22)''),
     (''os.apiVersion'', Some ''22''),
     (''os.softwareVersion'', Some ''6.0.0.129''),
     (''os.isPublic'', Some ''true''),
     (''hw.cpu.arch'', Some ''arm''),
     (''hw.cpu.ncore'', Some ''4''),
     (''hw.lcd.density'', Some ''288''),
     (''hw.lcd.single.diagonalSize'', Some ''13''),
     (''hw.lcd.single.height'', Some ''1648''),
     (''hw.lcd.single.width'', Some ''2472''),
     (''hw.lcd.number'', Some ''2''),
     (''hw.ramSize'', Some ''4096''),
     (''hw.dataPartitionSize'', Some ''6144''),
     (''isCustomize'', Some ''false''),
     (''hw.hdc.port'', Some ''notset''),
     (''hw.lcd.double.diagonalSize'', Some ''18.00''),
     (''hw.lcd.double.height'', Some ''2472''),
     (''hw.lcd.double.width'', Some ''3296'')]"
  by (simp add: no_model_device_def buildIni_defs spread_def demo_defs image_defs getScreen_def
        toScreen_def buildList_def path_str_def path_resolve_def truthy_def
        demo_numbers [unfolded nat_ops_def])

text \<open>
  C7, as amended. \<open>toIniString\<close> keeps the entries of the mapping whose value is
  defined, in the mapping's order, and writes each as \<open>key=value\<close> followed by a
  newline (a mapping with no defined entry gives a single newline). When no key holds
  \<open>=\<close> or a newline and no defined value holds a newline, reading the text back as
  key/value pairs gives exactly the mapping without its undefined entries. The values
  of a mapping are strings, as its type \<open>Record<string, string | undefined>\<close> says.
\<close>

theorem toIniString_round_trip:
  "map ini_line (defined_entries (buildIni ops dev default_ini_options)) =
     map (\<lambda>kv. fst kv @ ''='' @ the (snd kv))
       (filter (\<lambda>kv. snd kv \<noteq> None) (buildIni ops dev default_ini_options)) \<and>
   toIniString ops dev =
     (if defined_entries (buildIni ops dev default_ini_options) = [] then [newline]
      else concat (map (\<lambda>kv. fst kv @ ''='' @ snd kv @ [newline])
                    (defined_entries (buildIni ops dev default_ini_options)))) \<and>
   (ini_safe (defined_entries (buildIni ops dev default_ini_options)) \<longrightarrow>
      parse_key_values (toIniString ops dev) =
        defined_entries (buildIni ops dev default_ini_options))"
proof -
  let ?m = "buildIni ops dev default_ini_options"
  have a: "map ini_line (defined_entries ?m) =
     map (\<lambda>kv. fst kv @ ''='' @ the (snd kv)) (filter (\<lambda>kv. snd kv \<noteq> None) ?m)"
    by (simp only: defined_entries_filter [of ?m] map_map comp_def ini_line_def fst_conv
          snd_conv)
  have b: "toIniString ops dev =
     (if defined_entries ?m = [] then [newline]
      else concat (map (\<lambda>kv. fst kv @ ''='' @ snd kv @ [newline]) (defined_entries ?m)))"
    unfolding toIniString_def by (rule text_lines)
  have c: "ini_safe (defined_entries ?m) \<longrightarrow>
      parse_key_values (toIniString ops dev) = defined_entries ?m"
    unfolding toIniString_def by (intro impI parse_lines)
  from a b c show ?thesis
    by (intro conjI)
qed

text \<open>
  For the preset without a device model the mapping has 29 entries, \<open>deviceModel\<close>
  undefined among them; the text read back has the other 28, \<open>productModel\<close> among
  them and no \<open>deviceModel\<close>.
\<close>

theorem toIniString_round_trip_witness:
  "obj_get (buildIni nat_ops no_model_device default_ini_options) ''deviceModel'' = Some None \<and>
   obj_get (buildIni nat_ops no_model_device default_ini_options) ''productModel''
     = Some (Some ''MateBook Fold'') \<and>
   ini_safe (defined_entries (buildIni nat_ops no_model_device default_ini_options)) \<and>
   parse_key_values (toIniString nat_ops no_model_device) =
     defined_entries (buildIni nat_ops no_model_device default_ini_options) \<and>
   length (buildIni nat_ops no_model_device default_ini_options) = 29 \<and>
   length (parse_key_values (toIniString nat_ops no_model_device)) = 28 \<and>
   map_of (parse_key_values (toIniString nat_ops no_model_device)) ''deviceModel'' = None \<and>
   map_of (parse_key_values (toIniString nat_ops no_model_device)) ''productModel''
     = Some ''MateBook Fold'' \<and>
   take 3 (parse_key_values (toIniString nat_ops no_model_device)) =
     [(''name'', ''MateBook Fold''), (''deviceType'', ''2in1_foldable''),
      (''productModel'', ''MateBook Fold'')] \<and>
   ini_safe (defined_entries (buildIni nat_ops demo_device default_ini_options)) \<and>
   parse_key_values (toIniString nat_ops demo_device) =
     defined_entries (buildIni nat_ops demo_device default_ini_options)"
proof -
  let ?m = "buildIni nat_ops no_model_device default_ini_options"
  have g: "obj_get ?m ''deviceModel'' = Some None"
    "obj_get ?m ''productModel'' = Some (Some ''MateBook Fold'')"
    by (simp_all add: no_model_ini obj_simps)
  have h: "ini_safe (defined_entries ?m)"
    by (simp add: no_model_ini ini_safe_def defined_entries_def newline_def)
  have p: "parse_key_values (toIniString nat_ops no_model_device) = defined_entries ?m"
    using toIniString_round_trip [of nat_ops no_model_device] h by blast
  have l: "length ?m = 29"
    by (simp add: no_model_ini)
  have d: "length (defined_entries ?m) = 28"
    "map_of (defined_entries ?m) ''deviceModel'' = None"
    "map_of (defined_entries ?m) ''productModel'' = Some ''MateBook Fold''"
    "take 3 (defined_entries ?m) =
       [(''name'', ''MateBook Fold''), (''deviceType'', ''2in1_foldable''),
        (''productModel'', ''MateBook Fold'')]"
    by (simp_all add: no_model_ini defined_entries_def)
  have h2: "ini_safe (defined_entries (buildIni nat_ops demo_device default_ini_options))"
    by (simp add: demo_ini ini_safe_def defined_entries_def newline_def)
  have p2: "parse_key_values (toIniString nat_ops demo_device) =
     defined_entries (buildIni nat_ops demo_device default_ini_options)"
    using toIniString_round_trip [of nat_ops demo_device] h2 by blast
  from g h p l d h2 p2 show ?thesis
    unfolding p by (intro conjI)
qed

text \<open>
  C7 as stated fails: nothing escapes a newline. For the device named
  \<open>Mate<newline>Book\<close> the text read back starts with the pairs (name, Mate) and
  (Book, empty), not with (name, Mate<newline>Book).
\<close>

theorem toIniString_round_trip_counterexample:
  "take 2 (parse_key_values (toIniString nat_ops nl_device))
     = [(''name'', ''Mate''), (''Book'', '''')] \<and>
   take 1 (defined_entries (buildIni nat_ops nl_device default_ini_options))
     = [(''name'', ''Mate'' @ [newline] @ ''Book'')] \<and>
   parse_key_values (toIniString nat_ops nl_device) \<noteq>
     defined_entries (buildIni nat_ops nl_device default_ini_options)"
proof -
  have a: "take 2 (parse_key_values (toIniString nat_ops nl_device))
     = [(''name'', ''Mate''), (''Book'', '''')]"
    by (simp add: toIniString_def nl_ini defined_entries_def parse_key_values_def ini_line_def
          split_key_value_def newline_def)
  have b: "take 1 (defined_entries (buildIni nat_ops nl_device default_ini_options))
     = [(''name'', ''Mate'' @ [newline] @ ''Book'')]"
    by (simp add: nl_ini defined_entries_def)
  have "parse_key_values (toIniString nat_ops nl_device) \<noteq>
     defined_entries (buildIni nat_ops nl_device default_ini_options)"
  proof
    assume "parse_key_values (toIniString nat_ops nl_device) =
       defined_entries (buildIni nat_ops nl_device default_ini_options)"
    then have "take 1 (take 2 (parse_key_values (toIniString nat_ops nl_device))) =
       take 1 (defined_entries (buildIni nat_ops nl_device default_ini_options))"
      by simp
    then show False
      unfolding a b by (simp add: newline_def)
  qed
  with a b show ?thesis
    by simp
qed


section \<open>The file system and the registry\<close>

lemmas fs_defs = existsSync_def isFile_def isDirectory_def mkdirSync_def writeFileSync_def
  readFileSync_def rmSync_def JSON_parse_def or_empty_array_def path_join_def path_resolve_def
  read_json_def

lemmas fs_demo_defs = fs_first_def fs_registry_def fs_deployed_def fs_null_def fs_object_def

lemmas deploy_defs = deploy_def deploy_lists_def deploy_append_def isDeployed_def Let_def

lemma demo_list_simps:
  "l_name (buildList nat_ops demo_device) = ''MateBook Fold''"
  "l_path (buildList nat_ops demo_device) = [''deployed'', ''MateBook Fold'']"
  by (simp_all add: buildList_def demo_defs image_defs Let_def truthy_def path_resolve_def)

lemma demo_dev_simps:
  "deployedPath (manager (image demo_device)) = [''deployed'']"
  "opt_name (options demo_device) = ''MateBook Fold''"
  by (simp_all add: demo_defs)

lemma deploy_on_first:
  "deploy nat_ops fs_first demo_device =
     (None, fs_first([''deployed'', ''lists.json''] \<mapsto>
                       File (Json (JArray [buildList nat_ops demo_device]))))"
  by (simp add: deploy_defs fs_defs fs_demo_defs demo_list_simps demo_dev_simps)

lemma deploy_on_registry: "deploy nat_ops fs_registry demo_device = (None, fs_deployed)"
  by (auto simp: deploy_defs fs_defs fs_demo_defs demo_list_simps demo_dev_simps fun_eq_iff
        prefix_Cons)

lemma isDeployed_fs_deployed: "isDeployed fs_deployed demo_device = Inr True"
  by (simp add: isDeployed_def fs_defs fs_demo_defs demo_list_simps demo_dev_simps)

lemma writeFileSync_Inr:
  "writeFileSync fs p c = Inr fs' \<Longrightarrow> fs' = fs(p \<mapsto> File c)"
  by (auto simp: writeFileSync_def split: if_splits option.splits node.splits)

lemma writeFileSync_parent:
  "writeFileSync fs p c = Inr fs' \<Longrightarrow> fs (butlast p) = Some Dir \<and> p \<noteq> []"
  by (auto simp: writeFileSync_def split: if_splits option.splits node.splits)

lemma mkdirSync_Inr:
  "mkdirSync fs p = Inr fs' \<Longrightarrow>
     fs' = (\<lambda>q. if prefix q p \<and> fs q = None then Some Dir else fs q)"
  by (auto simp: mkdirSync_def split: if_splits)

lemma mkdirSync_exists: "mkdirSync fs p = Inr fs' \<Longrightarrow> existsSync fs' p"
  by (auto simp: existsSync_def dest!: mkdirSync_Inr)

lemma mkdirSync_keeps: "mkdirSync fs p = Inr fs' \<Longrightarrow> fs q \<noteq> None \<Longrightarrow> fs' q = fs q"
  by (auto dest!: mkdirSync_Inr)

lemma isDeployed_array:
  "fs (path_join (deployedPath (manager (image dev))) ''lists.json'') = Some (File (Json (JArray es)))
   \<Longrightarrow> isDeployed fs dev =
         Inr (list_ex (\<lambda>item. l_name item = opt_name (options dev) \<and>
                existsSync fs (path_resolve (l_path item) ''config.ini'')) es)"
  by (simp add: isDeployed_def Let_def existsSync_def isFile_def read_json_def readFileSync_def
        JSON_parse_def or_empty_array_def)

lemma deploy_lists_array:
  "fs (path_join (deployedPath (manager (image dev))) ''lists.json'') = Some (File (Json (JArray es)))
   \<Longrightarrow> \<not> existsSync fs (l_path (buildList ops dev))
   \<Longrightarrow> deploy_lists ops fs dev = deploy_append ops fs dev es"
  by (simp add: deploy_lists_def Let_def existsSync_def read_json_def readFileSync_def
        JSON_parse_def or_empty_array_def)

lemma find_name: "l_name lc \<in> l_name ` set es \<Longrightarrow> find (\<lambda>item. l_name item = l_name lc) es \<noteq> None"
  by (auto simp: find_None_iff)


section \<open>The first deployment\<close>

text \<open>
  C3 fails on the code. When the registry file does not exist yet, \<open>deploy\<close> writes
  the one-record registry and returns at once: the call succeeds, the registry holds the
  record, but the target directory and \<open>config.ini\<close> are not there. The other
  path, with a registry file present, does all three.
\<close>

theorem deploy_first_time:
  "fst (deploy nat_ops fs_first demo_device) = None \<and>
   registry_entries (snd (deploy nat_ops fs_first demo_device)) demo_device
     = [buildList nat_ops demo_device] \<and>
   \<not> existsSync (snd (deploy nat_ops fs_first demo_device))
        (l_path (buildList nat_ops demo_device)) \<and>
   \<not> existsSync (snd (deploy nat_ops fs_first demo_device))
        (path_join (l_path (buildList nat_ops demo_device)) ''config.ini'') \<and>
   fst (deploy nat_ops fs_registry demo_device) = None \<and>
   registry_entries (snd (deploy nat_ops fs_registry demo_device)) demo_device
     = [buildList nat_ops demo_device] \<and>
   isDirectory (snd (deploy nat_ops fs_registry demo_device))
     (l_path (buildList nat_ops demo_device)) \<and>
   snd (deploy nat_ops fs_registry demo_device)
     (path_join (l_path (buildList nat_ops demo_device)) ''config.ini'')
     = Some (File (Text (toIniString nat_ops demo_device)))"
  unfolding deploy_on_first deploy_on_registry
  by (simp add: registry_entries_def fs_defs fs_demo_defs demo_list_simps demo_dev_simps)

section \<open>Deploying a deployed device\<close>

text \<open>
  C9. When \<open>isDeployed\<close> returns true, \<open>deploy\<close> returns normally and the file
  system (registry file, target directory, configuration file) is the one it was given.
\<close>

theorem deploy_noop_when_deployed:
  "isDeployed fs dev = Inr True \<Longrightarrow> deploy ops fs dev = (None, fs)"
  by (simp add: deploy_def)

theorem deploy_noop_when_deployed_witness:
  "isDeployed fs_deployed demo_device = Inr True \<and>
   deploy nat_ops fs_deployed demo_device = (None, fs_deployed)"
proof -
  have h: "isDeployed fs_deployed demo_device = Inr True"
    by (rule isDeployed_fs_deployed)
  from h deploy_noop_when_deployed [OF h, of nat_ops] show ?thesis
    by simp
qed

section \<open>Deploying a name twice\<close>

lemma deploy_duplicate_fails:
  assumes nd: "isDeployed fs dev = Inr False"
    and dp: "existsSync fs (deployedPath (manager (image dev)))"
    and dup: "existsSync fs (l_path (buildList ops dev)) \<or>
              (\<exists>es. fs (path_join (deployedPath (manager (image dev))) ''lists.json'')
                       = Some (File (Json (JArray es))) \<and>
                    l_name (buildList ops dev) \<in> l_name ` set es)"
  shows "deploy ops fs dev = (Some (DeployError DEVICE_ALREADY_DEPLOYED), fs)"
proof -
  have d: "deploy ops fs dev = deploy_lists ops fs dev"
    using nd dp by (simp add: deploy_def)
  show ?thesis
  proof (cases "existsSync fs (l_path (buildList ops dev))")
    case True
    then show ?thesis
      unfolding d by (simp add: deploy_lists_def Let_def)
  next
    case False
    with dup obtain es where es:
      "fs (path_join (deployedPath (manager (image dev))) ''lists.json'') = Some (File (Json (JArray es)))"
      "l_name (buildList ops dev) \<in> l_name ` set es"
      by blast
    show ?thesis
      unfolding d deploy_lists_array [OF es(1) False]
      using find_name [OF es(2)] by (simp add: deploy_append_def Let_def)
  qed
qed

lemma deploy_lists_success:
  assumes "deploy_lists ops fs1 dev = (None, fs')"
  shows "\<not> existsSync fs1 (l_path (buildList ops dev)) \<and>
     ((\<not> existsSync fs1 (path_join (deployedPath (manager (image dev))) ''lists.json'') \<and>
       fs' = fs1(path_join (deployedPath (manager (image dev))) ''lists.json''
                 \<mapsto> File (Json (JArray [buildList ops dev])))) \<or>
      (\<exists>j es fs3.
         fs1 (path_join (deployedPath (manager (image dev))) ''lists.json'') = Some (File (Json j)) \<and>
         or_empty_array j = JArray es \<and>
         find (\<lambda>item. l_name item = l_name (buildList ops dev)) es = None \<and>
         mkdirSync (fs1(path_join (deployedPath (manager (image dev))) ''lists.json''
                 \<mapsto> File (Json (JArray (es @ [buildList ops dev])))))
            (l_path (buildList ops dev)) = Inr fs3 \<and>
         fs' = fs3(path_join (l_path (buildList ops dev)) ''config.ini''
                 \<mapsto> File (Text (toIniString ops dev)))))"
proof -
  let ?lp = "path_join (deployedPath (manager (image dev))) ''lists.json''"
  let ?lc = "buildList ops dev"
  have ne: "\<not> existsSync fs1 (l_path ?lc)"
    using assms by (auto simp: deploy_lists_def Let_def split: if_splits)
  show ?thesis
  proof (cases "existsSync fs1 ?lp")
    case False
    with assms ne have "fs' = fs1(?lp \<mapsto> File (Json (JArray [?lc])))"
      by (auto simp: deploy_lists_def Let_def split: sum.splits dest: writeFileSync_Inr)
    with ne False show ?thesis by blast
  next
    case True
    with assms ne obtain j where j: "read_json fs1 ?lp = Inr j"
      by (cases "read_json fs1 ?lp") (auto simp: deploy_lists_def Let_def)
    then have f: "fs1 ?lp = Some (File (Json j))"
      by (auto simp: read_json_def readFileSync_def JSON_parse_def
            split: option.splits node.splits content.splits)
    from assms ne True j obtain es where es: "or_empty_array j = JArray es"
      and a: "deploy_append ops fs1 dev es = (None, fs')"
      by (cases "or_empty_array j") (auto simp: deploy_lists_def Let_def)
    from a have n: "find (\<lambda>item. l_name item = l_name ?lc) es = None"
      by (auto simp: deploy_append_def Let_def split: if_splits)
    from a n obtain fs3 where
      "mkdirSync (fs1(?lp \<mapsto> File (Json (JArray (es @ [?lc]))))) (l_path ?lc) = Inr fs3"
      "fs' = fs3(path_join (l_path ?lc) ''config.ini'' \<mapsto> File (Text (toIniString ops dev)))"
      by (auto simp: deploy_append_def Let_def split: sum.splits dest!: writeFileSync_Inr)
    with ne f es n show ?thesis by blast
  qed
qed

lemma deploy_success:
  assumes "deploy ops fs dev = (None, fs')"
  shows "(isDeployed fs dev = Inr True \<and> fs' = fs) \<or>
         (isDeployed fs dev = Inr False \<and>
          (\<exists>fs1. existsSync fs1 (deployedPath (manager (image dev))) \<and>
                 deploy_lists ops fs1 dev = (None, fs')))"
proof (cases "isDeployed fs dev")
  case (Inl e)
  with assms show ?thesis by (simp add: deploy_def)
next
  case (Inr b)
  show ?thesis
  proof (cases b)
    case True
    with Inr assms show ?thesis by (simp add: deploy_def)
  next
    case False
    let ?dp = "deployedPath (manager (image dev))"
    show ?thesis
    proof (cases "existsSync fs ?dp")
      case True
      with Inr False assms show ?thesis
        by (auto simp: deploy_def)
    next
      case nex: False
      with Inr False assms obtain fs1 where m: "mkdirSync fs ?dp = Inr fs1"
        and d: "deploy_lists ops fs1 dev = (None, fs')"
        by (cases "mkdirSync fs ?dp") (auto simp: deploy_def)
      from mkdirSync_exists [OF m] d Inr False show ?thesis
        by auto
    qed
  qed
qed

lemma deploy_twice:
  assumes first: "deploy ops fs dev = (None, fs')"
  shows "(isDeployed fs' dev = Inr True \<and> deploy ops fs' dev = (None, fs') \<or>
          deploy ops fs' dev = (Some (DeployError DEVICE_ALREADY_DEPLOYED), fs')) \<and>
         (isDeployed fs dev = Inr False \<longrightarrow>
            length (filter (\<lambda>e. l_name e = l_name (buildList ops dev)) (registry_entries fs' dev)) = 1)"
proof -
  let ?dp = "deployedPath (manager (image dev))"
  let ?lp = "path_join ?dp ''lists.json''"
  let ?lc = "buildList ops dev"
  let ?cfg = "path_join (l_path ?lc) ''config.ini''"
  from deploy_success [OF first] show ?thesis
  proof (elim disjE conjE exE)
    assume "isDeployed fs dev = Inr True" "fs' = fs"
    then show ?thesis by (simp add: deploy_def)
  next
    fix fs1
    assume nd: "isDeployed fs dev = Inr False"
      and e1: "existsSync fs1 ?dp"
      and dl: "deploy_lists ops fs1 dev = (None, fs')"
    from deploy_lists_success [OF dl]
    have ne: "\<not> existsSync fs1 (l_path ?lc)" by blast
    from deploy_lists_success [OF dl]
    consider (fresh) "\<not> existsSync fs1 ?lp" "fs' = fs1(?lp \<mapsto> File (Json (JArray [?lc])))"
      | (append) j es fs3 where "fs1 ?lp = Some (File (Json j))" "or_empty_array j = JArray es"
          "find (\<lambda>item. l_name item = l_name ?lc) es = None"
          "mkdirSync (fs1(?lp \<mapsto> File (Json (JArray (es @ [?lc]))))) (l_path ?lc) = Inr fs3"
          "fs' = fs3(?cfg \<mapsto> File (Text (toIniString ops dev)))"
      by blast
    then show ?thesis
    proof cases
      case fresh
      have lp: "fs' ?lp = Some (File (Json (JArray [?lc])))"
        using fresh by simp
      have dp': "existsSync fs' ?dp"
        using e1 fresh by (simp add: existsSync_def path_join_def)
      have cnt: "length (filter (\<lambda>e. l_name e = l_name ?lc) (registry_entries fs' dev)) = 1"
        using lp by (simp add: registry_entries_def)
      have "isDeployed fs' dev = Inr True \<and> deploy ops fs' dev = (None, fs') \<or>
          deploy ops fs' dev = (Some (DeployError DEVICE_ALREADY_DEPLOYED), fs')"
      proof (cases "isDeployed fs' dev = Inr True")
        case True
        then show ?thesis by (simp add: deploy_def)
      next
        case False
        then have nd': "isDeployed fs' dev = Inr False"
          using isDeployed_array [of fs' dev "[?lc]", OF lp] by simp
        have "deploy ops fs' dev = (Some (DeployError DEVICE_ALREADY_DEPLOYED), fs')"
          using nd' dp' lp by (intro deploy_duplicate_fails) auto
        then show ?thesis ..
      qed
      with cnt show ?thesis by simp
    next
      case append
      let ?fs2 = "fs1(?lp \<mapsto> File (Json (JArray (es @ [?lc]))))"
      have neq: "?cfg \<noteq> ?lp"
        by (simp add: path_join_def)
      have lp3: "fs3 ?lp = Some (File (Json (JArray (es @ [?lc]))))"
        using mkdirSync_keeps [OF append(4), of ?lp] by simp
      have lp: "fs' ?lp = Some (File (Json (JArray (es @ [?lc]))))"
        using lp3 neq append(5) by simp
      have "fs1 ?dp \<noteq> None"
        using e1 by (simp add: existsSync_def)
      then have "?fs2 ?dp \<noteq> None"
        by (simp add: path_join_def)
      then have "fs3 ?dp \<noteq> None"
        using mkdirSync_keeps [OF append(4), of ?dp] by simp
      then have dp': "existsSync fs' ?dp"
        using append(5) by (simp add: existsSync_def)
      have "existsSync fs3 (l_path ?lc)"
        by (rule mkdirSync_exists [OF append(4)])
      then have tg: "existsSync fs' (l_path ?lc)"
        using append(5) by (simp add: existsSync_def)
      have cnt: "length (filter (\<lambda>e. l_name e = l_name ?lc) (registry_entries fs' dev)) = 1"
        using lp append(3) by (simp add: registry_entries_def find_None_iff filter_empty_conv [THEN iffD2])
      have "isDeployed fs' dev = Inr True \<and> deploy ops fs' dev = (None, fs') \<or>
          deploy ops fs' dev = (Some (DeployError DEVICE_ALREADY_DEPLOYED), fs')"
      proof (cases "isDeployed fs' dev = Inr True")
        case True
        then show ?thesis by (simp add: deploy_def)
      next
        case False
        then have nd': "isDeployed fs' dev = Inr False"
          using isDeployed_array [of fs' dev "es @ [?lc]", OF lp] by simp
        have "deploy ops fs' dev = (Some (DeployError DEVICE_ALREADY_DEPLOYED), fs')"
          using nd' dp' tg by (intro deploy_duplicate_fails) auto
        then show ?thesis ..
      qed
      with cnt show ?thesis by simp
    qed
  qed
qed



text \<open>
  C2, as amended. \<open>deploy\<close> fails with \<open>DEVICE_ALREADY_DEPLOYED\<close>, leaving the
  file system as it was, whenever the device is not already deployed (\<open>isDeployed\<close>
  is false), the deployment directory exists, and the target directory exists or the
  registry file is an array with a record of the same name. After a call that returned
  normally, a second call either finds the device deployed and returns normally, or fails
  with \<open>DEVICE_ALREADY_DEPLOYED\<close>; either way it changes nothing, and when the first
  call was not itself a no-op the registry holds exactly one record of that name.
\<close>

theorem deploy_duplicate:
  "(isDeployed fs dev = Inr False \<and>
    existsSync fs (deployedPath (manager (image dev))) \<and>
    (existsSync fs (l_path (buildList ops dev)) \<or>
     (\<exists>es. fs (path_join (deployedPath (manager (image dev))) ''lists.json'')
              = Some (File (Json (JArray es))) \<and>
           l_name (buildList ops dev) \<in> l_name ` set es))
    \<longrightarrow> deploy ops fs dev = (Some (DeployError DEVICE_ALREADY_DEPLOYED), fs)) \<and>
   (deploy ops fs dev = (None, fs') \<longrightarrow>
      (isDeployed fs' dev = Inr True \<and> deploy ops fs' dev = (None, fs') \<or>
       deploy ops fs' dev = (Some (DeployError DEVICE_ALREADY_DEPLOYED), fs')) \<and>
      (isDeployed fs dev = Inr False \<longrightarrow>
         length (filter (\<lambda>e. l_name e = l_name (buildList ops dev))
                   (registry_entries fs' dev)) = 1))"
  using deploy_duplicate_fails [of fs dev ops] deploy_twice [of ops fs dev fs']
  by blast

text \<open>
  On the first deployment the registry is created and nothing else; the second call
  with the same name fails with \<open>DEVICE_ALREADY_DEPLOYED\<close> and the registry holds
  one record of that name.
\<close>

theorem deploy_duplicate_witness:
  "deploy nat_ops fs_first demo_device =
     (None, fs_first([''deployed'', ''lists.json''] \<mapsto>
                       File (Json (JArray [buildList nat_ops demo_device])))) \<and>
   deploy nat_ops
     (fs_first([''deployed'', ''lists.json''] \<mapsto>
                       File (Json (JArray [buildList nat_ops demo_device])))) demo_device =
     (Some (DeployError DEVICE_ALREADY_DEPLOYED),
      fs_first([''deployed'', ''lists.json''] \<mapsto>
                       File (Json (JArray [buildList nat_ops demo_device])))) \<and>
   length (filter (\<lambda>e. l_name e = l_name (buildList nat_ops demo_device))
             (registry_entries
                (fs_first([''deployed'', ''lists.json''] \<mapsto>
                       File (Json (JArray [buildList nat_ops demo_device])))) demo_device)) = 1"
proof -
  let ?fs' = "fs_first([''deployed'', ''lists.json''] \<mapsto>
                       File (Json (JArray [buildList nat_ops demo_device])))"
  have first: "deploy nat_ops fs_first demo_device = (None, ?fs')"
    by (rule deploy_on_first)
  have nd0: "isDeployed fs_first demo_device = Inr False"
    by (simp add: isDeployed_def fs_defs fs_demo_defs demo_dev_simps)
  have nd: "isDeployed ?fs' demo_device = Inr False"
    by (simp add: isDeployed_def fs_defs fs_demo_defs demo_list_simps demo_dev_simps)
  have dp: "existsSync ?fs' (deployedPath (manager (image demo_device)))"
    by (simp add: fs_defs fs_demo_defs demo_dev_simps)
  have reg: "?fs' (path_join (deployedPath (manager (image demo_device))) ''lists.json'')
      = Some (File (Json (JArray [buildList nat_ops demo_device])))"
    by (simp add: fs_defs demo_dev_simps)
  have second: "deploy nat_ops ?fs' demo_device
      = (Some (DeployError DEVICE_ALREADY_DEPLOYED), ?fs')"
    using deploy_duplicate [of ?fs' demo_device nat_ops ?fs'] nd dp reg
    by auto
  have one: "length (filter (\<lambda>e. l_name e = l_name (buildList nat_ops demo_device))
             (registry_entries ?fs' demo_device)) = 1"
    using deploy_duplicate [of fs_first demo_device nat_ops ?fs'] first nd0
    by blast
  from first second one show ?thesis
    by simp
qed

text \<open>
  C2 as stated fails: once the device is fully deployed (its record is in the registry,
  its directory and \<open>config.ini\<close> exist), a second call does not fail.
\<close>

theorem deploy_duplicate_counterexample:
  "deploy nat_ops fs_registry demo_device = (None, fs_deployed) \<and>
   l_name (buildList nat_ops demo_device) \<in> l_name ` set (registry_entries fs_deployed demo_device) \<and>
   existsSync fs_deployed (l_path (buildList nat_ops demo_device)) \<and>
   deploy nat_ops fs_deployed demo_device = (None, fs_deployed)"
proof -
  have "deploy nat_ops fs_deployed demo_device = (None, fs_deployed)"
    using isDeployed_fs_deployed by (simp add: deploy_def)
  then show ?thesis
    using deploy_on_registry
    by (simp add: registry_entries_def fs_defs fs_demo_defs demo_list_simps demo_dev_simps)
qed

section \<open>A registry file that is not an array\<close>

lemmas read_defs = existsSync_def isFile_def read_json_def readFileSync_def JSON_parse_def
  or_empty_array_def Let_def

text \<open>
  A payload that is neither an array nor \<open>null\<close> (an object, say): \<open>isDeployed\<close>
  calls \<open>some\<close> on it, which is a type error, and \<open>deploy\<close> calls \<open>isDeployed\<close>
  first, so the check of \<open>deploy\<close> that raises \<open>LIST_JSON_NOT_AN_ARRAY\<close> is never
  reached with such a payload; \<open>deploy_lists\<close>, entered directly, would raise it.
\<close>

lemma object_payload:
  assumes "fs (path_join (deployedPath (manager (image dev))) ''lists.json'') = Some (File (Json JOther))"
  shows "isDeployed fs dev = Inl TypeError"
    and "deploy ops fs dev = (Some TypeError, fs)"
    and "delete ops fs dev = (Some TypeError, fs)"
proof -
  show a: "isDeployed fs dev = Inl TypeError"
    using assms by (simp add: isDeployed_def read_defs)
  show "deploy ops fs dev = (Some TypeError, fs)"
    by (simp add: deploy_def a)
  show "delete ops fs dev = (Some TypeError, fs)"
    using assms by (simp add: delete_def read_defs)
qed

lemma not_an_array_check:
  assumes "fs (path_join (deployedPath (manager (image dev))) ''lists.json'') = Some (File (Json JOther))"
    and "\<not> existsSync fs (l_path (buildList ops dev))"
  shows "deploy_lists ops fs dev = (Some (DeployError LIST_JSON_NOT_AN_ARRAY), fs)"
  using assms by (simp add: deploy_lists_def read_defs)

lemma null_payload:
  assumes "fs (path_join (deployedPath (manager (image dev))) ''lists.json'') = Some (File (Json JNull))"
  shows "isDeployed fs dev = Inr False"
    and "delete ops fs dev =
           (Some (PlainError (''Device '' @ opt_name (options dev) @ '' not found'')), fs)"
  using assms by (simp_all add: isDeployed_def delete_def read_defs)

lemma getDevices_non_array:
  assumes "fs (path_resolve (deployedPath (manager img)) ''lists.json'') = Some (File (Json j))"
    and "j = JNull \<or> j = JOther"
  shows "getDevices ops INI_parse productConfig rnd fs img = Inr []"
  using assms by (auto simp: getDevices_def read_defs)

lemma mkdirSync_upd:
  assumes "fs lp = Some (File c)" and "\<not> prefix lp p"
  shows "mkdirSync (fs(lp \<mapsto> File c')) p =
           (case mkdirSync fs p of Inl e \<Rightarrow> Inl e | Inr fs1 \<Rightarrow> Inr (fs1(lp \<mapsto> File c')))"
proof -
  have "\<And>q. prefix q p \<Longrightarrow> q \<noteq> lp"
    using assms(2) by auto
  then have "list_ex (isFile (fs(lp \<mapsto> File c'))) (prefixes p) = list_ex (isFile fs) (prefixes p)"
    by (auto simp: list_ex_iff isFile_def)
  then show ?thesis
    using assms by (auto simp: mkdirSync_def fun_eq_iff)
qed

lemma null_deploy:
  assumes n: "fs (path_join (deployedPath (manager (image dev))) ''lists.json'') = Some (File (Json JNull))"
  shows "fst (deploy ops fs dev) =
         fst (deploy ops (fs(path_join (deployedPath (manager (image dev))) ''lists.json''
                \<mapsto> File (Json (JArray [])))) dev) \<and>
         (fst (deploy ops fs dev) = None \<longrightarrow>
          snd (deploy ops fs dev) =
          snd (deploy ops (fs(path_join (deployedPath (manager (image dev))) ''lists.json''
                \<mapsto> File (Json (JArray [])))) dev))"
proof -
  let ?dp = "deployedPath (manager (image dev))"
  let ?lp = "path_join ?dp ''lists.json''"
  let ?E = "File (Json (JArray []))"
  let ?fsA = "fs(?lp \<mapsto> ?E)"
  have i1: "isDeployed fs dev = Inr False"
    using n by (simp add: isDeployed_def read_defs)
  have i2: "isDeployed ?fsA dev = Inr False"
    by (simp add: isDeployed_def read_defs)
  have np: "\<not> prefix ?lp ?dp"
    by (simp add: path_join_def prefix_def)
  note mk = mkdirSync_upd [of fs ?lp "Json JNull" ?dp "Json (JArray [])", OF n np]
  have ex: "existsSync ?fsA ?dp = existsSync fs ?dp"
    by (simp add: existsSync_def path_join_def)
  have step: "\<And>fs1. fs1 ?lp = Some (File (Json JNull)) \<Longrightarrow>
     fst (deploy_lists ops fs1 dev) = fst (deploy_lists ops (fs1(?lp \<mapsto> ?E)) dev) \<and>
     (fst (deploy_lists ops fs1 dev) = None \<longrightarrow>
        snd (deploy_lists ops fs1 dev) = snd (deploy_lists ops (fs1(?lp \<mapsto> ?E)) dev))"
  proof -
    fix fs1 :: fs
    assume l: "fs1 ?lp = Some (File (Json JNull))"
    have bl: "butlast ?lp \<noteq> ?lp"
      by (simp add: path_join_def)
    have w: "\<And>c. writeFileSync (fs1(?lp \<mapsto> ?E)) ?lp c = writeFileSync fs1 ?lp c"
      using l bl by (simp add: writeFileSync_def path_join_def split: option.splits node.splits)
    show "fst (deploy_lists ops fs1 dev) = fst (deploy_lists ops (fs1(?lp \<mapsto> ?E)) dev) \<and>
     (fst (deploy_lists ops fs1 dev) = None \<longrightarrow>
        snd (deploy_lists ops fs1 dev) = snd (deploy_lists ops (fs1(?lp \<mapsto> ?E)) dev))"
      using l
      by (simp add: deploy_lists_def deploy_append_def read_defs w split: sum.splits)
  qed
  show ?thesis
  proof (cases "existsSync fs ?dp")
    case True
    then show ?thesis
      using step [of fs, OF n] i1 i2 ex by (simp add: deploy_def)
  next
    case False
    show ?thesis
    proof (cases "mkdirSync fs ?dp")
      case (Inl e)
      then show ?thesis
        using False i1 i2 ex mk
        by (simp add: deploy_def)
    next
      case (Inr fs1)
      then have l1: "fs1 ?lp = Some (File (Json JNull))"
        using mkdirSync_keeps [OF Inr, of ?lp] n by simp
      show ?thesis
        using False i1 i2 ex Inr mk
          step [of fs1, OF l1]
        by (simp add: deploy_def)
    qed
  qed
qed


text \<open>
  C8, as amended. \<open>getDevices\<close> does not fail on a registry file whose payload is
  not an array: it returns no device. \<open>isDeployed\<close>, \<open>delete\<close> and \<open>deploy\<close>
  read a \<open>null\<close> payload as the empty registry: \<open>isDeployed\<close> is false,
  \<open>delete\<close> reports that the device is not found, and \<open>deploy\<close> does what it
  does on an empty array. What these three do on any other payload that is not an array
  is no part of the statement (\<open>object_payload\<close> above records it).
\<close>

theorem registry_non_array:
  assumes "fs (path_join (deployedPath (manager (image dev))) ''lists.json'')
             = Some (File (Json j))"
  shows
    "((\<forall>entries. j \<noteq> JArray entries) \<longrightarrow>
        getDevices ops INI_parse productConfig rnd fs (image dev) = Inr []) \<and>
     (j = JNull \<longrightarrow>
        isDeployed fs dev = Inr False \<and>
        delete ops fs dev =
          (Some (PlainError (''Device '' @ opt_name (options dev) @ '' not found'')), fs) \<and>
        fst (deploy ops fs dev) =
          fst (deploy ops (fs(path_join (deployedPath (manager (image dev))) ''lists.json''
                 \<mapsto> File (Json (JArray [])))) dev) \<and>
        (fst (deploy ops fs dev) = None \<longrightarrow>
           snd (deploy ops fs dev) =
             snd (deploy ops (fs(path_join (deployedPath (manager (image dev))) ''lists.json''
                    \<mapsto> File (Json (JArray [])))) dev)))"
proof (intro conjI impI)
  assume "\<forall>entries. j \<noteq> JArray entries"
  then have "j = JNull \<or> j = JOther"
    by (cases j) simp_all
  then show "getDevices ops INI_parse productConfig rnd fs (image dev) = Inr []"
    using assms getDevices_non_array [where fs = fs and img = "image dev" and j = j]
    by (simp add: path_join_def path_resolve_def)
next
  assume j: "j = JNull"
  then have n: "fs (path_join (deployedPath (manager (image dev))) ''lists.json'')
             = Some (File (Json JNull))"
    using assms by simp
  show "isDeployed fs dev = Inr False"
    by (rule null_payload(1) [where fs = fs and dev = dev, OF n])
  show "delete ops fs dev =
          (Some (PlainError (''Device '' @ opt_name (options dev) @ '' not found'')), fs)"
    by (rule null_payload(2) [where fs = fs and dev = dev, OF n])
  show "fst (deploy ops fs dev) =
          fst (deploy ops (fs(path_join (deployedPath (manager (image dev))) ''lists.json''
                 \<mapsto> File (Json (JArray [])))) dev)"
    using null_deploy [where fs = fs and dev = dev and ops = ops, OF n] by blast
  show "snd (deploy ops fs dev) =
             snd (deploy ops (fs(path_join (deployedPath (manager (image dev))) ''lists.json''
                    \<mapsto> File (Json (JArray [])))) dev)"
    if "fst (deploy ops fs dev) = None"
    using null_deploy [where fs = fs and dev = dev and ops = ops, OF n] that by blast
qed

text \<open>
  On a registry file that holds a JSON object \<open>getDevices\<close> returns no device; on one
  that holds \<open>null\<close> so does it, \<open>isDeployed\<close> is false, \<open>delete\<close> does not find
  the device, and \<open>deploy\<close> ends as it does on the empty registry \<open>fs_registry\<close>.
\<close>

theorem registry_non_array_witness:
  "fs_object (path_join (deployedPath (manager (image demo_device))) ''lists.json'')
     = Some (File (Json JOther)) \<and>
   getDevices nat_ops (\<lambda>c. []) [mateBookFold] ''rnd'' fs_object (image demo_device) = Inr [] \<and>
   fs_null (path_join (deployedPath (manager (image demo_device))) ''lists.json'')
     = Some (File (Json JNull)) \<and>
   getDevices nat_ops (\<lambda>c. []) [mateBookFold] ''rnd'' fs_null (image demo_device) = Inr [] \<and>
   isDeployed fs_null demo_device = Inr False \<and>
   delete nat_ops fs_null demo_device =
     (Some (PlainError ''Device MateBook Fold not found''), fs_null) \<and>
   fs_null(path_join (deployedPath (manager (image demo_device))) ''lists.json''
       \<mapsto> File (Json (JArray []))) = fs_registry \<and>
   fst (deploy nat_ops fs_null demo_device) = fst (deploy nat_ops fs_registry demo_device)"
proof -
  have o: "fs_object (path_join (deployedPath (manager (image demo_device))) ''lists.json'')
     = Some (File (Json JOther))"
    by (simp add: fs_defs fs_demo_defs demo_dev_simps)
  have n: "fs_null (path_join (deployedPath (manager (image demo_device))) ''lists.json'')
     = Some (File (Json JNull))"
    by (simp add: fs_defs fs_demo_defs demo_dev_simps)
  have r: "fs_null(path_join (deployedPath (manager (image demo_device))) ''lists.json''
       \<mapsto> File (Json (JArray []))) = fs_registry"
    by (simp add: fs_demo_defs demo_dev_simps path_join_def)
  have nm: "opt_name (options demo_device) = ''MateBook Fold''"
    by (simp add: demo_defs)
  note to = registry_non_array [where fs = fs_object and dev = demo_device and j = JOther
      and ops = nat_ops and INI_parse = "\<lambda>c. []" and productConfig = "[mateBookFold]"
      and rnd = "''rnd''", OF o]
  note tn = registry_non_array [where fs = fs_null and dev = demo_device and j = JNull
      and ops = nat_ops and INI_parse = "\<lambda>c. []" and productConfig = "[mateBookFold]"
      and rnd = "''rnd''", OF n]
  have g1: "getDevices nat_ops (\<lambda>c. []) [mateBookFold] ''rnd'' fs_object (image demo_device)
      = Inr []"
    using to by simp
  have g2: "getDevices nat_ops (\<lambda>c. []) [mateBookFold] ''rnd'' fs_null (image demo_device)
      = Inr []"
    using tn by simp
  have i: "isDeployed fs_null demo_device = Inr False"
    using tn by simp
  have d: "delete nat_ops fs_null demo_device =
     (Some (PlainError ''Device MateBook Fold not found''), fs_null)"
    using tn by (simp add: nm)
  have e: "fst (deploy nat_ops fs_null demo_device) = fst (deploy nat_ops fs_registry demo_device)"
    using tn unfolding r by simp
  from o g1 n g2 i d r e show ?thesis
    by (intro conjI)
qed

text \<open>
  C8 as stated fails: on a registry file that holds a JSON object \<open>getDevices\<close>
  returns the empty list, and on one that holds \<open>null\<close> \<open>isDeployed\<close> returns
  false and \<open>deploy\<close> goes on to deploy; none of them fails.
\<close>

theorem registry_non_array_counterexample:
  "getDevices nat_ops (\<lambda>c. []) [mateBookFold] ''rnd'' fs_object demo_image = Inr [] \<and>
   getDevices nat_ops (\<lambda>c. []) [mateBookFold] ''rnd'' fs_null demo_image = Inr [] \<and>
   isDeployed fs_null demo_device = Inr False \<and>
   fst (deploy nat_ops fs_null demo_device) = None \<and>
   registry_entries (snd (deploy nat_ops fs_null demo_device)) demo_device
     = [buildList nat_ops demo_device]"
proof -
  have g: "getDevices nat_ops (\<lambda>c. []) [mateBookFold] ''rnd'' fs_object demo_image = Inr []"
    "getDevices nat_ops (\<lambda>c. []) [mateBookFold] ''rnd'' fs_null demo_image = Inr []"
    by (simp_all add: getDevices_def read_defs fs_demo_defs demo_image_def demo_manager_def
          path_resolve_def)
  have i: "isDeployed fs_null demo_device = Inr False"
    by (simp add: isDeployed_def read_defs fs_demo_defs demo_dev_simps path_join_def)
  have d: "deploy nat_ops fs_null demo_device = (None, fs_deployed)"
    by (auto simp: deploy_defs fs_defs fs_demo_defs demo_list_simps demo_dev_simps fun_eq_iff
          prefix_Cons)
  show ?thesis
    unfolding d using g i
    by (simp add: registry_entries_def fs_defs fs_demo_defs demo_dev_simps)
qed



section \<open>The download protocol\<close>

lemma ensure_failed:
  "ensure_cachePath fs mo = Inl e \<Longrightarrow>
   startDownload d server mo url fs = (Some e, fs, [(Call_mkdirSync (cachePath mo), fs)])"
  by (simp add: startDownload_def)

lemma header_sent:
  "(req_headers (download_request d fs1 mo url) \<noteq> []) =
     ((\<exists>old. fs1 (getCacheFsPath mo url) = Some (File old) \<and> old \<noteq> []) \<or>
      (fs1 (getCacheFsPath mo url) = Some Dir \<and> 0 < d))"
  by (auto simp: download_request_def range_headers_def startByte_def stat_size_def
        existsSync_def split: option.splits node.splits)

lemma header_file:
  "fs1 (getCacheFsPath mo url) = Some (File old) \<Longrightarrow> old \<noteq> [] \<Longrightarrow>
   req_headers (download_request d fs1 mo url) =
     [(''Range'', ''bytes='' @ show_nat (length old) @ ''-'')]"
  by (simp add: download_request_def range_headers_def startByte_def stat_size_def
        existsSync_def)

lemma header_dir:
  "fs1 (getCacheFsPath mo url) = Some Dir \<Longrightarrow> 0 < d \<Longrightarrow>
   req_headers (download_request d fs1 mo url) =
     [(''Range'', ''bytes='' @ show_nat d @ ''-'')]"
  by (simp add: download_request_def range_headers_def startByte_def stat_size_def
        existsSync_def)

lemma transport_failure:
  assumes "ensure_cachePath fs mo = Inr fs1"
    and "server (download_request d fs1 mo url) = TransportFailure"
  shows "startDownload d server mo url fs = (Some NetworkError, fs1, request_steps d fs fs1 mo url)"
  using assms by (simp add: startDownload_def Let_def request_steps_def)

lemma rejected_status:
  assumes "ensure_cachePath fs mo = Inr fs1"
    and "server (download_request d fs1 mo url) = Responded r"
    and "status r \<noteq> 200" "status r \<noteq> 206"
  shows "startDownload d server mo url fs =
           (Some (AxiosError (status r)), fs1, request_steps d fs fs1 mo url)"
  using assms by (simp add: startDownload_def Let_def request_steps_def validateStatus_def)

lemma accepted_status:
  assumes "ensure_cachePath fs mo = Inr fs1"
    and "server (download_request d fs1 mo url) = Responded r"
    and "status r = 200 \<or> status r = 206"
    and "write_response (startByte d fs1 (getCacheFsPath mo url)) (getCacheFsPath mo url) r fs1
           = (err, fs4, steps)"
  shows "startDownload d server mo url fs = (err, fs4, request_steps d fs fs1 mo url @ steps)"
  using assms by (auto simp: startDownload_def Let_def request_steps_def validateStatus_def)

lemma cache_parent:
  assumes "fs (cachePath mo) = Some Dir" and "fs (getCacheFsPath mo url) \<noteq> Some Dir"
  shows "getCacheFsPath mo url \<noteq> [] \<and> butlast (getCacheFsPath mo url) = cachePath mo \<and>
         cachePath mo \<noteq> getCacheFsPath mo url"
  using assms by (cases "basename url = []") (auto simp: getCacheFsPath_def path_resolve_def)

lemma write_full:
  assumes cd: "fs1 (cachePath mo) = Some Dir"
    and f: "fs1 (getCacheFsPath mo url) = Some (File old)" and ne: "old \<noteq> []"
    and st: "status r = 200"
  shows "write_response (length old) (getCacheFsPath mo url) r fs1 =
           ((if body_error r then Some StreamError else None),
            fs1(getCacheFsPath mo url \<mapsto> File (body r)),
            [(Call_rmSync (getCacheFsPath mo url), fs1(getCacheFsPath mo url := None)),
             (Call_createWriteStream (getCacheFsPath mo url) Flag_w 0,
                fs1(getCacheFsPath mo url \<mapsto> File [])),
             (Call_pipe (body r), fs1(getCacheFsPath mo url \<mapsto> File (body r)))])"
proof -
  have p: "getCacheFsPath mo url \<noteq> [] \<and> butlast (getCacheFsPath mo url) = cachePath mo \<and>
         cachePath mo \<noteq> getCacheFsPath mo url"
    using cache_parent [where fs = fs1 and mo = mo and url = url] cd f by simp
  show ?thesis
    using cd f ne st p
    by (simp add: write_response_def Let_def writeStart_def writeFlags_def rmSync_force_def
          createWriteStream_def pipe_bytes_def)
qed

lemma write_partial:
  assumes cd: "fs1 (cachePath mo) = Some Dir"
    and f: "fs1 (getCacheFsPath mo url) = Some (File old)" and ne: "old \<noteq> []"
    and st: "status r = 206"
  shows "write_response (length old) (getCacheFsPath mo url) r fs1 =
           ((if body_error r then Some StreamError else None),
            fs1(getCacheFsPath mo url \<mapsto> File (old @ body r)),
            [(Call_createWriteStream (getCacheFsPath mo url) Flag_a (length old), fs1),
             (Call_pipe (body r), fs1(getCacheFsPath mo url \<mapsto> File (old @ body r)))])"
proof -
  have p: "getCacheFsPath mo url \<noteq> [] \<and> butlast (getCacheFsPath mo url) = cachePath mo \<and>
         cachePath mo \<noteq> getCacheFsPath mo url"
    using cache_parent [where fs = fs1 and mo = mo and url = url] cd f by simp
  show ?thesis
    using cd f ne st p
    by (simp add: write_response_def Let_def writeStart_def writeFlags_def rmSync_force_def
          createWriteStream_def pipe_bytes_def)
qed

lemma write_fresh:
  assumes cd: "fs1 (cachePath mo) = Some Dir"
    and f: "fs1 (getCacheFsPath mo url) = None \<or> fs1 (getCacheFsPath mo url) = Some (File [])"
  shows "write_response 0 (getCacheFsPath mo url) r fs1 =
           ((if body_error r then Some StreamError else None),
            fs1(getCacheFsPath mo url \<mapsto> File (body r)),
            [(Call_createWriteStream (getCacheFsPath mo url) Flag_w 0,
                fs1(getCacheFsPath mo url \<mapsto> File [])),
             (Call_pipe (body r), fs1(getCacheFsPath mo url \<mapsto> File (body r)))])"
proof -
  have p: "getCacheFsPath mo url \<noteq> [] \<and> butlast (getCacheFsPath mo url) = cachePath mo \<and>
         cachePath mo \<noteq> getCacheFsPath mo url"
    using cache_parent [where fs = fs1 and mo = mo and url = url] cd f by auto
  show ?thesis
    using cd f p
    by (auto simp: write_response_def Let_def writeStart_def writeFlags_def rmSync_force_def
          createWriteStream_def pipe_bytes_def)
qed

lemma write_dir_full:
  assumes f: "fs1 cp = Some Dir" and d: "0 < d" and st: "status r = 200"
  shows "write_response d cp r fs1 = (Some FsError, fs1, [(Call_rmSync cp, fs1)])"
  using assms by (simp add: write_response_def Let_def rmSync_force_def)

lemma write_dir_partial:
  assumes f: "fs1 cp = Some Dir" and d: "0 < d" and st: "status r = 206"
  shows "write_response d cp r fs1 =
           (Some FsError, fs1, [(Call_createWriteStream cp Flag_a d, fs1)])"
  using assms
  by (simp add: write_response_def Let_def writeStart_def writeFlags_def createWriteStream_def
        split: option.splits node.splits)


lemma startByte_cases:
  "startByte d fs1 p = (case fs1 p of None \<Rightarrow> 0 | Some Dir \<Rightarrow> d | Some (File old) \<Rightarrow> length old)"
  by (simp add: startByte_def stat_size_def existsSync_def split: option.splits node.splits)

text \<open>
  With a directory at the cache path the offset is the size reported for the directory;
  the call then fails, on 200 at \<open>rmSync\<close> and on 206 at the opening of the write
  stream (\<open>header_dir\<close>, \<open>write_dir_full\<close>, \<open>write_dir_partial\<close>).
\<close>

text \<open>
  C5, as amended. When the cache directory cannot be made, the call fails before any
  request. Otherwise, with \<open>fs1\<close> the file system once the cache directory is in
  place, and the cache path not a directory: the request carries a \<open>Range\<close> header
  exactly when the cache path holds a non-empty file, and the header is
  \<open>bytes=<offset>-\<close> with the size of that file as offset. A transport failure and
  a status other than 200 and 206 make the call fail with nothing removed or written.
  With a non-empty partial file in the cache directory: on 200 the file is removed, the
  write stream is opened with flag \<open>w\<close> at byte 0 and the file ends up holding the
  body alone; on 206 nothing is removed, the stream is opened with flag \<open>a\<close> at the
  offset and the file holds the old bytes followed by the body. With no file or an
  empty one nothing is removed and the body is written from byte 0. Every result lists
  the calls made, each with the file system it left.
\<close>

theorem startDownload_resume:
  "(\<forall>e. ensure_cachePath fs mo = Inl e \<longrightarrow>
      startDownload d server mo url fs = (Some e, fs, [(Call_mkdirSync (cachePath mo), fs)])) \<and>
   (\<forall>fs1. ensure_cachePath fs mo = Inr fs1 \<longrightarrow>
      (fs1 (getCacheFsPath mo url) \<noteq> Some Dir \<longrightarrow>
         (req_headers (download_request d fs1 mo url) \<noteq> []) =
           (\<exists>old. fs1 (getCacheFsPath mo url) = Some (File old) \<and> old \<noteq> [])) \<and>
      (\<forall>old. fs1 (getCacheFsPath mo url) = Some (File old) \<and> old \<noteq> [] \<longrightarrow>
         req_headers (download_request d fs1 mo url) =
           [(''Range'', ''bytes='' @ show_nat (length old) @ ''-'')]) \<and>
      (server (download_request d fs1 mo url) = TransportFailure \<longrightarrow>
         startDownload d server mo url fs =
           (Some NetworkError, fs1, request_steps d fs fs1 mo url)) \<and>
      (\<forall>r. server (download_request d fs1 mo url) = Responded r \<longrightarrow>
         (status r \<noteq> 200 \<and> status r \<noteq> 206 \<longrightarrow>
            startDownload d server mo url fs =
              (Some (AxiosError (status r)), fs1, request_steps d fs fs1 mo url)) \<and>
         (\<forall>old. fs1 (cachePath mo) = Some Dir \<and>
                fs1 (getCacheFsPath mo url) = Some (File old) \<and> old \<noteq> [] \<longrightarrow>
            (status r = 200 \<longrightarrow>
               startDownload d server mo url fs =
                 ((if body_error r then Some StreamError else None),
                  fs1(getCacheFsPath mo url \<mapsto> File (body r)),
                  request_steps d fs fs1 mo url @
                  [(Call_rmSync (getCacheFsPath mo url), fs1(getCacheFsPath mo url := None)),
                   (Call_createWriteStream (getCacheFsPath mo url) Flag_w 0,
                      fs1(getCacheFsPath mo url \<mapsto> File [])),
                   (Call_pipe (body r), fs1(getCacheFsPath mo url \<mapsto> File (body r)))])) \<and>
            (status r = 206 \<longrightarrow>
               startDownload d server mo url fs =
                 ((if body_error r then Some StreamError else None),
                  fs1(getCacheFsPath mo url \<mapsto> File (old @ body r)),
                  request_steps d fs fs1 mo url @
                  [(Call_createWriteStream (getCacheFsPath mo url) Flag_a (length old), fs1),
                   (Call_pipe (body r),
                      fs1(getCacheFsPath mo url \<mapsto> File (old @ body r)))]))) \<and>
         (fs1 (cachePath mo) = Some Dir \<and>
          (fs1 (getCacheFsPath mo url) = None \<or> fs1 (getCacheFsPath mo url) = Some (File [])) \<and>
          (status r = 200 \<or> status r = 206) \<longrightarrow>
            startDownload d server mo url fs =
              ((if body_error r then Some StreamError else None),
               fs1(getCacheFsPath mo url \<mapsto> File (body r)),
               request_steps d fs fs1 mo url @
               [(Call_createWriteStream (getCacheFsPath mo url) Flag_w 0,
                   fs1(getCacheFsPath mo url \<mapsto> File [])),
                (Call_pipe (body r), fs1(getCacheFsPath mo url \<mapsto> File (body r)))]))))"
proof (intro conjI allI impI)
  fix e
  assume "ensure_cachePath fs mo = Inl e"
  then show "startDownload d server mo url fs =
      (Some e, fs, [(Call_mkdirSync (cachePath mo), fs)])"
    by (rule ensure_failed)
next
  fix fs1 :: "string file_system"
  assume "fs1 (getCacheFsPath mo url) \<noteq> Some Dir"
  then show "(req_headers (download_request d fs1 mo url) \<noteq> []) =
        (\<exists>old. fs1 (getCacheFsPath mo url) = Some (File old) \<and> old \<noteq> [])"
    by (simp add: header_sent)
next
  fix fs1 :: "string file_system" and old
  assume "fs1 (getCacheFsPath mo url) = Some (File old) \<and> old \<noteq> []"
  then show "req_headers (download_request d fs1 mo url) =
           [(''Range'', ''bytes='' @ show_nat (length old) @ ''-'')]"
    by (simp add: header_file)
next
  fix fs1 :: "string file_system"
  assume "ensure_cachePath fs mo = Inr fs1"
    and "server (download_request d fs1 mo url) = TransportFailure"
  then show "startDownload d server mo url fs =
           (Some NetworkError, fs1, request_steps d fs fs1 mo url)"
    by (rule transport_failure)
next
  fix fs1 :: "string file_system" and r
  assume "ensure_cachePath fs mo = Inr fs1"
    and "server (download_request d fs1 mo url) = Responded r"
    and "status r \<noteq> 200 \<and> status r \<noteq> 206"
  then show "startDownload d server mo url fs =
              (Some (AxiosError (status r)), fs1, request_steps d fs fs1 mo url)"
    by (simp add: rejected_status)
next
  fix fs1 :: "string file_system" and r old
  assume e: "ensure_cachePath fs mo = Inr fs1"
    and sv: "server (download_request d fs1 mo url) = Responded r"
    and h: "fs1 (cachePath mo) = Some Dir \<and>
            fs1 (getCacheFsPath mo url) = Some (File old) \<and> old \<noteq> []"
    and st: "status r = 200"
  have sb: "startByte d fs1 (getCacheFsPath mo url) = length old"
    using h by (simp add: startByte_cases)
  show "startDownload d server mo url fs =
                 ((if body_error r then Some StreamError else None),
                  fs1(getCacheFsPath mo url \<mapsto> File (body r)),
                  request_steps d fs fs1 mo url @
                  [(Call_rmSync (getCacheFsPath mo url), fs1(getCacheFsPath mo url := None)),
                   (Call_createWriteStream (getCacheFsPath mo url) Flag_w 0,
                      fs1(getCacheFsPath mo url \<mapsto> File [])),
                   (Call_pipe (body r), fs1(getCacheFsPath mo url \<mapsto> File (body r)))])"
    using h st
    by (intro accepted_status [where server = server and d = d and url = url, OF e sv])
      (simp_all add: sb write_full)
next
  fix fs1 :: "string file_system" and r old
  assume e: "ensure_cachePath fs mo = Inr fs1"
    and sv: "server (download_request d fs1 mo url) = Responded r"
    and h: "fs1 (cachePath mo) = Some Dir \<and>
            fs1 (getCacheFsPath mo url) = Some (File old) \<and> old \<noteq> []"
    and st: "status r = 206"
  have sb: "startByte d fs1 (getCacheFsPath mo url) = length old"
    using h by (simp add: startByte_cases)
  show "startDownload d server mo url fs =
                 ((if body_error r then Some StreamError else None),
                  fs1(getCacheFsPath mo url \<mapsto> File (old @ body r)),
                  request_steps d fs fs1 mo url @
                  [(Call_createWriteStream (getCacheFsPath mo url) Flag_a (length old), fs1),
                   (Call_pipe (body r),
                      fs1(getCacheFsPath mo url \<mapsto> File (old @ body r)))])"
    using h st
    by (intro accepted_status [where server = server and d = d and url = url, OF e sv])
      (simp_all add: sb write_partial)
next
  fix fs1 :: "string file_system" and r
  assume e: "ensure_cachePath fs mo = Inr fs1"
    and sv: "server (download_request d fs1 mo url) = Responded r"
    and h: "fs1 (cachePath mo) = Some Dir \<and>
          (fs1 (getCacheFsPath mo url) = None \<or> fs1 (getCacheFsPath mo url) = Some (File [])) \<and>
          (status r = 200 \<or> status r = 206)"
  have sb: "startByte d fs1 (getCacheFsPath mo url) = 0"
    using h by (auto simp: startByte_cases)
  show "startDownload d server mo url fs =
              ((if body_error r then Some StreamError else None),
               fs1(getCacheFsPath mo url \<mapsto> File (body r)),
               request_steps d fs fs1 mo url @
               [(Call_createWriteStream (getCacheFsPath mo url) Flag_w 0,
                   fs1(getCacheFsPath mo url \<mapsto> File [])),
                (Call_pipe (body r), fs1(getCacheFsPath mo url \<mapsto> File (body r)))])"
    using h
    by (intro accepted_status [where server = server and d = d and url = url, OF e sv])
      (simp_all add: sb write_fresh)
qed

text \<open>
  With four bytes cached the request asks for \<open>bytes=4-\<close>; a 206 appends the rest, a
  200 removes the file and writes the whole body, a 404 fails and leaves the cache as
  it was. With no cache directory it is made first, and the request has no header.
\<close>

theorem startDownload_resume_witness:
  "ensure_cachePath cache_partial demo_manager = Inr cache_partial \<and>
   req_headers (download_request 4096 cache_partial demo_manager ''https://host/dir/image.zip'')
     = [(''Range'', ''bytes=4-'')] \<and>
   (req_headers (download_request 4096 (cache_none([''images'', ''cache''] \<mapsto> Dir)) demo_manager
      ''https://host/dir/image.zip'') \<noteq> []) = False \<and>
   startDownload 4096 server_206 demo_manager ''https://host/dir/image.zip'' cache_partial =
     (None, cache_partial([''images'', ''cache'', ''image.zip''] \<mapsto> File ''PK123456''),
      [(Call_get \<lparr> req_url = ''https://host/dir/image.zip'',
                    req_headers = [(''Range'', ''bytes=4-'')] \<rparr>, cache_partial),
       (Call_createWriteStream [''images'', ''cache'', ''image.zip''] Flag_a 4, cache_partial),
       (Call_pipe ''3456'',
          cache_partial([''images'', ''cache'', ''image.zip''] \<mapsto> File ''PK123456''))]) \<and>
   startDownload 4096 server_200 demo_manager ''https://host/dir/image.zip'' cache_partial =
     (None, cache_partial([''images'', ''cache'', ''image.zip''] \<mapsto> File ''PK123456''),
      [(Call_get \<lparr> req_url = ''https://host/dir/image.zip'',
                    req_headers = [(''Range'', ''bytes=4-'')] \<rparr>, cache_partial),
       (Call_rmSync [''images'', ''cache'', ''image.zip''],
          cache_partial([''images'', ''cache'', ''image.zip''] := None)),
       (Call_createWriteStream [''images'', ''cache'', ''image.zip''] Flag_w 0,
          cache_partial([''images'', ''cache'', ''image.zip''] \<mapsto> File [])),
       (Call_pipe ''PK123456'',
          cache_partial([''images'', ''cache'', ''image.zip''] \<mapsto> File ''PK123456''))]) \<and>
   startDownload 4096 server_404 demo_manager ''https://host/dir/image.zip'' cache_partial =
     (Some (AxiosError 404), cache_partial,
      [(Call_get \<lparr> req_url = ''https://host/dir/image.zip'',
                    req_headers = [(''Range'', ''bytes=4-'')] \<rparr>, cache_partial)]) \<and>
   ensure_cachePath cache_none demo_manager = Inr (cache_none([''images'', ''cache''] \<mapsto> Dir)) \<and>
   startDownload 4096 server_200 demo_manager ''https://host/dir/image.zip'' cache_none =
     (None,
      cache_none([''images'', ''cache''] \<mapsto> Dir,
                 [''images'', ''cache'', ''image.zip''] \<mapsto> File ''PK123456''),
      [(Call_mkdirSync [''images'', ''cache''], cache_none([''images'', ''cache''] \<mapsto> Dir)),
       (Call_get \<lparr> req_url = ''https://host/dir/image.zip'', req_headers = [] \<rparr>,
          cache_none([''images'', ''cache''] \<mapsto> Dir)),
       (Call_createWriteStream [''images'', ''cache'', ''image.zip''] Flag_w 0,
          cache_none([''images'', ''cache''] \<mapsto> Dir,
                     [''images'', ''cache'', ''image.zip''] \<mapsto> File [])),
       (Call_pipe ''PK123456'',
          cache_none([''images'', ''cache''] \<mapsto> Dir,
                     [''images'', ''cache'', ''image.zip''] \<mapsto> File ''PK123456''))])"
proof -
  let ?url = "''https://host/dir/image.zip''"
  let ?cp = "[''images'', ''cache'', ''image.zip'']"
  let ?made = "cache_none([''images'', ''cache''] \<mapsto> Dir)"
  have cpath: "cachePath demo_manager = [''images'', ''cache'']"
    by (simp add: demo_manager_def)
  have cp: "getCacheFsPath demo_manager ?url = ?cp"
    by (simp add: getCacheFsPath_def basename_def path_resolve_def demo_manager_def)
  have e: "ensure_cachePath cache_partial demo_manager = Inr cache_partial"
    by (simp add: ensure_cachePath_def existsSync_def cache_partial_def cpath)
  have cd: "cache_partial (cachePath demo_manager) = Some Dir"
    by (simp add: cache_partial_def cpath)
  have f: "cache_partial ?cp = Some (File ''PK12'')"
    by (simp add: cache_partial_def)
  have n4: "show_nat (Suc (Suc (Suc (Suc 0)))) = ''4''"
    by (simp add: show_nat.simps)
  have rq: "download_request 4096 cache_partial demo_manager ?url =
      \<lparr> req_url = ?url, req_headers = [(''Range'', ''bytes=4-'')] \<rparr>"
    using f n4
    by (simp add: cp download_request_def range_headers_def startByte_def stat_size_def
          existsSync_def)
  have st: "request_steps 4096 cache_partial cache_partial demo_manager ?url =
      [(Call_get \<lparr> req_url = ?url, req_headers = [(''Range'', ''bytes=4-'')] \<rparr>, cache_partial)]"
    using cd by (simp add: request_steps_def existsSync_def rq)
  have a: "startDownload 4096 server_206 demo_manager ?url cache_partial =
     (None, cache_partial(?cp \<mapsto> File ''PK123456''),
      [(Call_get \<lparr> req_url = ?url, req_headers = [(''Range'', ''bytes=4-'')] \<rparr>, cache_partial),
       (Call_createWriteStream ?cp Flag_a 4, cache_partial),
       (Call_pipe ''3456'', cache_partial(?cp \<mapsto> File ''PK123456''))])"
    using startDownload_resume [where fs = cache_partial and mo = demo_manager and url = ?url
        and d = 4096 and server = server_206] e cd f
    by (simp add: cp st server_206_def)
  have b: "startDownload 4096 server_200 demo_manager ?url cache_partial =
     (None, cache_partial(?cp \<mapsto> File ''PK123456''),
      [(Call_get \<lparr> req_url = ?url, req_headers = [(''Range'', ''bytes=4-'')] \<rparr>, cache_partial),
       (Call_rmSync ?cp, cache_partial(?cp := None)),
       (Call_createWriteStream ?cp Flag_w 0, cache_partial(?cp \<mapsto> File [])),
       (Call_pipe ''PK123456'', cache_partial(?cp \<mapsto> File ''PK123456''))])"
    using startDownload_resume [where fs = cache_partial and mo = demo_manager and url = ?url
        and d = 4096 and server = server_200] e cd f
    by (simp add: cp st server_200_def)
  have c: "startDownload 4096 server_404 demo_manager ?url cache_partial =
     (Some (AxiosError 404), cache_partial,
      [(Call_get \<lparr> req_url = ?url, req_headers = [(''Range'', ''bytes=4-'')] \<rparr>, cache_partial)])"
    using startDownload_resume [where fs = cache_partial and mo = demo_manager and url = ?url
        and d = 4096 and server = server_404] e
    by (simp add: st server_404_def)
  have e2: "ensure_cachePath cache_none demo_manager = Inr ?made"
    by (auto simp: ensure_cachePath_def existsSync_def mkdirSync_def isFile_def cache_none_def
          cpath fun_eq_iff prefix_Cons)
  have rq2: "download_request 4096 ?made demo_manager ?url = \<lparr> req_url = ?url, req_headers = [] \<rparr>"
    by (simp add: download_request_def cp range_headers_def startByte_def existsSync_def
          cache_none_def)
  have ex: "\<not> existsSync cache_none (cachePath demo_manager)"
    by (simp add: existsSync_def cache_none_def cpath)
  have st2: "request_steps 4096 cache_none ?made demo_manager ?url =
      [(Call_mkdirSync [''images'', ''cache''], ?made),
       (Call_get \<lparr> req_url = ?url, req_headers = [] \<rparr>, ?made)]"
    using ex by (simp add: request_steps_def rq2 cpath)
  have cd2: "?made (cachePath demo_manager) = Some Dir"
    by (simp add: cpath)
  have f2: "?made ?cp = None"
    by (simp add: cache_none_def)
  have d: "startDownload 4096 server_200 demo_manager ?url cache_none =
     (None, ?made(?cp \<mapsto> File ''PK123456''),
      [(Call_mkdirSync [''images'', ''cache''], ?made),
       (Call_get \<lparr> req_url = ?url, req_headers = [] \<rparr>, ?made),
       (Call_createWriteStream ?cp Flag_w 0, ?made(?cp \<mapsto> File [])),
       (Call_pipe ''PK123456'', ?made(?cp \<mapsto> File ''PK123456''))])"
    using startDownload_resume [where fs = cache_none and mo = demo_manager and url = ?url
        and d = 4096 and server = server_200] e2 cd2 f2
    by (simp add: cp st2 server_200_def)
  note t = startDownload_resume [where fs = cache_partial and mo = demo_manager and url = ?url
      and d = 4096 and server = server_206, THEN conjunct2, rule_format, OF e]
  have hd: "req_headers (download_request 4096 cache_partial demo_manager ?url)
     = [(''Range'', ''bytes=4-'')]"
    using t [THEN conjunct2, THEN conjunct1, rule_format, of "''PK12''"] f n4
    by (simp add: cp)
  note t2 = startDownload_resume [where fs = cache_none and mo = demo_manager and url = ?url
      and d = 4096 and server = server_200, THEN conjunct2, rule_format, OF e2]
  have hn: "(req_headers (download_request 4096 ?made demo_manager ?url) \<noteq> []) = False"
    using t2 [THEN conjunct1, rule_format] f2
    by (simp add: cp)
  from e hd hn a b c e2 d show ?thesis
    by (intro conjI)
qed

text \<open>
  C5 as stated fails: the offset is the size of whatever is at the cache path, file or
  not. With a directory there (reported size 4096) no partial cache file exists, yet the
  request carries \<open>Range: bytes=4096-\<close>; and on a 200 response nothing is deleted
  and nothing written, the call fails at \<open>rmSync\<close>.
\<close>

theorem startDownload_resume_counterexample:
  "cache_dir (getCacheFsPath demo_manager ''https://host/dir/image.zip'') = Some Dir \<and>
   isFile cache_dir (getCacheFsPath demo_manager ''https://host/dir/image.zip'') = False \<and>
   req_headers (download_request 4096 cache_dir demo_manager ''https://host/dir/image.zip'')
     = [(''Range'', ''bytes=4096-'')] \<and>
   startDownload 4096 server_200 demo_manager ''https://host/dir/image.zip'' cache_dir =
     (Some FsError, cache_dir,
      [(Call_get \<lparr> req_url = ''https://host/dir/image.zip'',
                    req_headers = [(''Range'', ''bytes=4096-'')] \<rparr>, cache_dir),
       (Call_rmSync [''images'', ''cache'', ''image.zip''], cache_dir)])"
proof -
  let ?url = "''https://host/dir/image.zip''"
  have cp: "getCacheFsPath demo_manager ?url = [''images'', ''cache'', ''image.zip'']"
    by (simp add: getCacheFsPath_def basename_def path_resolve_def demo_manager_def)
  have n: "show_nat 4096 = ''4096''"
    by (simp add: show_nat.simps)
  have f: "cache_dir [''images'', ''cache'', ''image.zip''] = Some Dir"
    by (simp add: cache_dir_def)
  have rq: "download_request 4096 cache_dir demo_manager ?url =
      \<lparr> req_url = ?url, req_headers = [(''Range'', ''bytes=4096-'')] \<rparr>"
    using f
    by (simp add: download_request_def cp range_headers_def startByte_def stat_size_def
          existsSync_def n)
  have ex: "existsSync cache_dir (cachePath demo_manager)"
    by (simp add: existsSync_def cache_dir_def demo_manager_def)
  have e: "ensure_cachePath cache_dir demo_manager = Inr cache_dir"
    by (simp add: ensure_cachePath_def existsSync_def cache_dir_def demo_manager_def)
  have w: "write_response 4096 [''images'', ''cache'', ''image.zip'']
             \<lparr> status = 200, body = ''PK123456'', body_error = False \<rparr> cache_dir =
           (Some FsError, cache_dir, [(Call_rmSync [''images'', ''cache'', ''image.zip''], cache_dir)])"
    using f by (simp add: write_response_def Let_def rmSync_force_def)
  have s: "startDownload 4096 server_200 demo_manager ?url cache_dir =
     (Some FsError, cache_dir,
      [(Call_get \<lparr> req_url = ?url, req_headers = [(''Range'', ''bytes=4096-'')] \<rparr>, cache_dir),
       (Call_rmSync [''images'', ''cache'', ''image.zip''], cache_dir)])"
    using f ex
    by (simp add: startDownload_def Let_def e rq cp server_200_def validateStatus_def
          startByte_cases w)
  have d1: "cache_dir (getCacheFsPath demo_manager ?url) = Some Dir"
    by (simp add: cp f)
  have d2: "isFile cache_dir (getCacheFsPath demo_manager ?url) = False"
    by (simp add: isFile_def d1)
  have d3: "req_headers (download_request 4096 cache_dir demo_manager ?url)
     = [(''Range'', ''bytes=4096-'')]"
    by (simp add: rq)
  from d1 d2 d3 s show ?thesis
    by (intro conjI)
qed

end
